theory Spec2Isabelle
  imports Main "HOL-Library.DAList" "HOL-Library.Word"
begin

section \<open>Go values\<close>

text \<open>
  A Go map is either nil or a finite map with unique keys.  The non-nil map is a
  distinct association list: its entry list is one order in which \<^verbatim>\<open>range\<close> may
  visit the entries.  Every statement below holds for every such order, since the
  entry list is universally quantified.  \<open>mapIndex\<close> is the read \<^verbatim>\<open>v, ok := m[k]\<close>,
  which finds nothing in a nil map; \<open>DAList.update\<close> is the write \<^verbatim>\<open>m[k] = v\<close> into a
  map that is not nil.
\<close>

type_synonym ('k, 'v) gomap = "('k, 'v) alist option"

type_synonym strmap = "(string, string) alist"

definition rangeEntries :: "('k, 'v) gomap \<Rightarrow> ('k \<times> 'v) list" where
  "rangeEntries m = (case m of None \<Rightarrow> [] | Some a \<Rightarrow> DAList.impl_of a)"

definition mapIndex :: "('k, 'v) gomap \<Rightarrow> 'k \<Rightarrow> 'v option" where
  "mapIndex m k = (case m of None \<Rightarrow> None | Some a \<Rightarrow> DAList.lookup a k)"

definition mapKeys :: "('k, 'v) gomap \<Rightarrow> 'k set" where
  "mapKeys m = (case m of None \<Rightarrow> {} | Some a \<Rightarrow> fst ` set (DAList.impl_of a))"

text \<open>
  Errors are values.  \<^verbatim>\<open>errors.Errorf\<close> and \<^verbatim>\<open>errors.Wrap\<close> keep their message; a
  failing typed field accessor names its field path; a dereference of a nil pointer
  or an assignment into a nil map (a Go panic) ends the computation with
  \<open>RuntimePanic\<close> and no result.
\<close>

datatype fieldPath =
    SpecMachineTemplateInfrastructureRef
  | SpecMachineTemplateMetadata
  | SpecReplicas
  | SpecVersion

datatype error =
    Errorf string
  | Wrap error string
  | PathNotExposed fieldPath
  | RuntimePanic

record objectReference =
  ref_Kind :: string
  ref_Namespace :: string
  ref_Name :: string
  ref_APIVersion :: string

text \<open>\<^verbatim>\<open>clusterv1.ObjectMeta\<close>: the labels and annotations handed down to machines.\<close>

record objectMeta =
  om_Labels :: "(string, string) gomap"
  om_Annotations :: "(string, string) gomap"

text \<open>
  \<^verbatim>\<open>unstructured.Unstructured\<close>: the metadata fields the file reads and writes through
  the accessor methods (\<^verbatim>\<open>GetLabels\<close>, \<^verbatim>\<open>SetName\<close>, ...), the four well-known spec
  paths the typed field accessors address, the list of these paths the object's
  schema exposes, and the remaining content, which the file never interprets.
\<close>

record unstructured =
  u_apiVersion :: string
  u_kind :: string
  u_name :: string
  u_namespace :: string
  u_labels :: "(string, string) gomap"
  u_annotations :: "(string, string) gomap"
  u_resourceVersion :: string
  u_uid :: string
  u_finalizers :: "string list"
  u_selfLink :: string
  u_exposes :: "fieldPath list"
  u_machineTemplateInfrastructureRef :: "objectReference option"
  u_machineTemplateMetadata :: "objectMeta option"
  u_replicas :: "64 word option"
  u_version :: "string option"
  u_content :: string

text \<open>The zero value \<^verbatim>\<open>&unstructured.Unstructured{}\<close>.\<close>

definition emptyUnstructured :: unstructured where
  "emptyUnstructured =
     \<lparr>u_apiVersion = [], u_kind = [], u_name = [], u_namespace = [], u_labels = None,
      u_annotations = None, u_resourceVersion = [], u_uid = [], u_finalizers = [],
      u_selfLink = [], u_exposes = [], u_machineTemplateInfrastructureRef = None,
      u_machineTemplateMetadata = None, u_replicas = None, u_version = None,
      u_content = []\<rparr>"

text \<open>\<^verbatim>\<open>clusterv1.Cluster\<close>, with \<^verbatim>\<open>Spec.InfrastructureRef\<close> and \<^verbatim>\<open>Spec.ControlPlaneRef\<close>.\<close>

record cluster =
  cl_Name :: string
  cl_Namespace :: string
  cl_Labels :: "(string, string) gomap"
  cl_InfrastructureRef :: "objectReference option"
  cl_ControlPlaneRef :: "objectReference option"

text \<open>
  \<^verbatim>\<open>clusterv1.MachineDeployment\<close>; the nested structs are flattened, a field is named
  by its path (\<open>md_Template_Spec_Version\<close> is \<^verbatim>\<open>Spec.Template.Spec.Version\<close>).
\<close>

record machineDeployment =
  md_Kind :: string
  md_APIVersion :: string
  md_Name :: string
  md_Namespace :: string
  md_Labels :: "(string, string) gomap"
  md_ClusterName :: string
  md_Replicas :: "32 word option"
  md_Template_Labels :: "(string, string) gomap"
  md_Template_Annotations :: "(string, string) gomap"
  md_Template_Spec_ClusterName :: string
  md_Template_Spec_Version :: "string option"
  md_Template_Spec_Bootstrap_ConfigRef :: "objectReference option"
  md_Template_Spec_InfrastructureRef :: objectReference

section \<open>The scope: blueprint and cluster state\<close>

record machineDeploymentState =
  mds_Object :: "machineDeployment option"
  mds_BootstrapTemplate :: "unstructured option"
  mds_InfrastructureMachineTemplate :: "unstructured option"

record controlPlaneState =
  cps_Object :: "unstructured option"
  cps_InfrastructureMachineTemplate :: "unstructured option"

record clusterState =
  cs_Cluster :: "cluster option"
  cs_InfrastructureCluster :: "unstructured option"
  cs_ControlPlane :: "controlPlaneState option"
  cs_MachineDeployments :: "(string, machineDeploymentState) gomap"

record machineDeploymentTopology =
  mdt_Class :: string
  mdt_Name :: string
  mdt_Replicas :: "32 word option"
  mdt_Metadata :: objectMeta

record controlPlaneTopology =
  cpt_Metadata :: objectMeta
  cpt_Replicas :: "32 word option"

record workersTopology =
  wt_MachineDeployments :: "machineDeploymentTopology list"

record topology =
  top_Version :: string
  top_ControlPlane :: controlPlaneTopology
  top_Workers :: "workersTopology option"

record localObjectTemplate =
  lot_Ref :: "objectReference option"

record controlPlaneClass =
  cpc_Metadata :: objectMeta
  cpc_Ref :: "objectReference option"
  cpc_MachineInfrastructure :: "localObjectTemplate option"

record clusterClass =
  cc_Name :: string
  cc_Infrastructure_Ref :: "objectReference option"
  cc_ControlPlane :: controlPlaneClass

record machineDeploymentBlueprint =
  mdb_Metadata :: objectMeta
  mdb_BootstrapTemplate :: unstructured
  mdb_InfrastructureMachineTemplate :: unstructured

record controlPlaneBlueprint =
  cpb_Template :: unstructured
  cpb_InfrastructureMachineTemplate :: "unstructured option"

record clusterBlueprint =
  bp_Topology :: topology
  bp_ClusterClass :: clusterClass
  bp_InfrastructureClusterTemplate :: unstructured
  bp_ControlPlane :: controlPlaneBlueprint
  bp_MachineDeployments :: "(string, machineDeploymentBlueprint) gomap"

record scope =
  sc_Blueprint :: clusterBlueprint
  sc_Current :: clusterState

section \<open>Collaborators outside the file\<close>

text \<open>
  The file uses constants and functions that are declared elsewhere: the label and
  annotation keys and the group version of \<^verbatim>\<open>clusterv1\<close>, the name generator
  \<^verbatim>\<open>names.SimpleNameGenerator\<close>, the template generator \<^verbatim>\<open>external.GenerateTemplate\<close>,
  the rendering \<^verbatim>\<open>GroupVersionKind().GroupKind().String()\<close> of a reference, and the
  three name-prefix helpers.  They are parameters of the model.  The name generator
  draws on a source of randomness: it takes and returns a generator state \<open>'g\<close>, and so
  does the template generator, which may generate a name of its own.
\<close>

record generateTemplateInput =
  gti_Template :: "unstructured option"
  gti_TemplateRef :: "objectReference option"
  gti_Namespace :: string
  gti_Labels :: "(string, string) gomap"
  gti_ClusterName :: string

record 'g environment =
  ClusterLabelName :: string
  ClusterTopologyOwnedLabel :: string
  ClusterTopologyMachineDeploymentLabelName :: string
  TemplateClonedFromNameAnnotation :: string
  TemplateClonedFromGroupKindAnnotation :: string
  GroupVersionString :: string
  GenerateName :: "string \<Rightarrow> 'g \<Rightarrow> string \<times> 'g"
  GenerateTemplate :: "generateTemplateInput \<Rightarrow> 'g \<Rightarrow> (error + unstructured) \<times> 'g"
  GroupKindString :: "objectReference \<Rightarrow> string"
  controlPlaneInfrastructureMachineTemplateNamePrefix :: "string \<Rightarrow> string"
  bootstrapTemplateNamePrefix :: "string \<Rightarrow> string \<Rightarrow> string"
  infrastructureMachineTemplateNamePrefix :: "string \<Rightarrow> string \<Rightarrow> string"

text \<open>
  Modelled from the spec: the methods \<^verbatim>\<open>HasControlPlaneInfrastructureMachine\<close> and
  \<^verbatim>\<open>HasMachineDeployments\<close> of the blueprint are not in the source file.  The first
  holds when the cluster class declares an infrastructure-machine template for the
  control plane ("the blueprint declares that control-plane machines require an
  infrastructure-machine template"); the second when the topology lists at least one
  machine-deployment entry ("one per worker group", "if any").
\<close>

definition HasControlPlaneInfrastructureMachine :: "clusterBlueprint \<Rightarrow> bool" where
  "HasControlPlaneInfrastructureMachine b =
     (case cpc_MachineInfrastructure (cc_ControlPlane (bp_ClusterClass b)) of
        None \<Rightarrow> False
      | Some mi \<Rightarrow> lot_Ref mi \<noteq> None)"

definition HasMachineDeployments :: "clusterBlueprint \<Rightarrow> bool" where
  "HasMachineDeployments b =
     (case top_Workers (bp_Topology b) of
        None \<Rightarrow> False
      | Some w \<Rightarrow> 0 < length (wt_MachineDeployments w))"

text \<open>
  Modelled from the spec: \<^verbatim>\<open>contract.ObjToRef\<close> is not in the source file.  It is the
  reference constructor "ObjectToReference(object) \<rightarrow> reference
  (group/version/kind/name/namespace)".
\<close>

definition ObjToRef :: "unstructured \<Rightarrow> objectReference" where
  "ObjToRef obj =
     \<lparr>ref_Kind = u_kind obj, ref_Namespace = u_namespace obj, ref_Name = u_name obj,
      ref_APIVersion = u_apiVersion obj\<rparr>"

text \<open>
  Modelled from the spec: the typed field accessors of the \<^verbatim>\<open>contract\<close> package are
  not in the source file.  They are "get/set operations on semi-structured objects
  for well-known field paths (machine-template infrastructure reference,
  machine-template metadata, replica count, version). Each set/get may fail if the
  target object's schema does not expose the path".  A set writes its one field and
  no other.
\<close>

definition exposes :: "unstructured \<Rightarrow> fieldPath \<Rightarrow> bool" where
  "exposes obj p = (p \<in> set (u_exposes obj))"

definition InfrastructureRefGet :: "unstructured \<Rightarrow> error + objectReference option" where
  "InfrastructureRefGet obj =
     (if exposes obj SpecMachineTemplateInfrastructureRef
      then Inr (u_machineTemplateInfrastructureRef obj)
      else Inl (PathNotExposed SpecMachineTemplateInfrastructureRef))"

definition InfrastructureRefSet :: "unstructured \<Rightarrow> unstructured \<Rightarrow> error + unstructured" where
  "InfrastructureRefSet obj tmpl =
     (if exposes obj SpecMachineTemplateInfrastructureRef
      then Inr (obj\<lparr>u_machineTemplateInfrastructureRef := Some (ObjToRef tmpl)\<rparr>)
      else Inl (PathNotExposed SpecMachineTemplateInfrastructureRef))"

definition MetadataSet :: "unstructured \<Rightarrow> objectMeta \<Rightarrow> error + unstructured" where
  "MetadataSet obj m =
     (if exposes obj SpecMachineTemplateMetadata
      then Inr (obj\<lparr>u_machineTemplateMetadata := Some m\<rparr>)
      else Inl (PathNotExposed SpecMachineTemplateMetadata))"

definition ReplicasSet :: "unstructured \<Rightarrow> 64 word \<Rightarrow> error + unstructured" where
  "ReplicasSet obj n =
     (if exposes obj SpecReplicas
      then Inr (obj\<lparr>u_replicas := Some n\<rparr>)
      else Inl (PathNotExposed SpecReplicas))"

definition VersionSet :: "unstructured \<Rightarrow> string \<Rightarrow> error + unstructured" where
  "VersionSet obj v =
     (if exposes obj SpecVersion
      then Inr (obj\<lparr>u_version := Some v\<rparr>)
      else Inl (PathNotExposed SpecVersion))"

section \<open>mergeMap\<close>

text \<open>
  \<^verbatim>\<open>for k, v := range b { m[k] = v }\<close> is a fold of the assignment over the entries
  of \<open>b\<close>; ranging over a nil map visits nothing.
\<close>

definition mergeMap :: "(string, string) gomap \<Rightarrow> (string, string) gomap \<Rightarrow> strmap" where
  "mergeMap a b =
     (let m = DAList.empty;
          m = fold (\<lambda>(k, v) m. DAList.update k v m) (rangeEntries b) m;
          m = fold (\<lambda>(k, v) m. DAList.update k v m) (rangeEntries a) m
      in m)"

section \<open>The template cloner\<close>

text \<open>
  \<^verbatim>\<open>templateToInput\<close>.  The template is a pointer: an object in the value model, an
  address in the store model of \<open>templateToTemplateStore\<close>.  Every caller has
  dereferenced the cluster pointer before the call, so the cluster is a value.
\<close>

record 't templateToInput =
  in_template :: "'t option"
  in_templateClonedFromRef :: "objectReference option"
  in_cluster :: cluster
  in_namePrefix :: string
  in_currentObjectRef :: "objectReference option"

definition templateToObject ::
  "'g environment \<Rightarrow> unstructured templateToInput \<Rightarrow> 'g \<Rightarrow> (error + unstructured) \<times> 'g" where
  "templateToObject env inp g =
     (let labels = DAList.empty;
          labels = DAList.update (ClusterLabelName env) (cl_Name (in_cluster inp)) labels;
          labels = DAList.update (ClusterTopologyOwnedLabel env) [] labels
      in case GenerateTemplate env
                \<lparr>gti_Template = in_template inp,
                 gti_TemplateRef = in_templateClonedFromRef inp,
                 gti_Namespace = cl_Namespace (in_cluster inp),
                 gti_Labels = Some labels,
                 gti_ClusterName = cl_Name (in_cluster inp)\<rparr> g of
           (Inl err, g1) \<Rightarrow> (Inl err, g1)
         | (Inr object, g1) \<Rightarrow>
             (case GenerateName env (in_namePrefix inp) g1 of
                (generated, g2) \<Rightarrow>
                  (let object = object\<lparr>u_name := generated\<rparr>;
                       object =
                         (case in_currentObjectRef inp of
                            None \<Rightarrow> object
                          | Some r \<Rightarrow>
                              if 0 < length (ref_Name r) then object\<lparr>u_name := ref_Name r\<rparr>
                              else object)
                   in (Inr object, g2))))"

text \<open>
  \<^verbatim>\<open>templateToTemplate\<close> on values: \<^verbatim>\<open>DeepCopyInto\<close> yields an object equal to the
  source, and every setter updates the copy.  The two pointers the function
  dereferences without a check (\<^verbatim>\<open>in.template\<close>, \<^verbatim>\<open>in.templateClonedFromRef\<close>) end
  the call with \<open>RuntimePanic\<close> when nil.
\<close>

definition templateToTemplate ::
  "'g environment \<Rightarrow> unstructured templateToInput \<Rightarrow> 'g \<Rightarrow> (error + unstructured) \<times> 'g" where
  "templateToTemplate env inp g =
     (case in_template inp of
        None \<Rightarrow> (Inl RuntimePanic, g)
      | Some src \<Rightarrow>
          (let template = src;
               template = template\<lparr>u_resourceVersion := []\<rparr>;
               template = template\<lparr>u_finalizers := []\<rparr>;
               template = template\<lparr>u_uid := []\<rparr>;
               template = template\<lparr>u_selfLink := []\<rparr>;
               labels = (case u_labels template of None \<Rightarrow> DAList.empty | Some l \<Rightarrow> l);
               labels = DAList.update (ClusterLabelName env) (cl_Name (in_cluster inp)) labels;
               labels = DAList.update (ClusterTopologyOwnedLabel env) [] labels;
               template = template\<lparr>u_labels := Some labels\<rparr>;
               annotations =
                 (case u_annotations template of None \<Rightarrow> DAList.empty | Some a \<Rightarrow> a)
           in case in_templateClonedFromRef inp of
                None \<Rightarrow> (Inl RuntimePanic, g)
              | Some clonedFrom \<Rightarrow>
                  (let annotations =
                         DAList.update (TemplateClonedFromNameAnnotation env)
                           (ref_Name clonedFrom) annotations;
                       annotations =
                         DAList.update (TemplateClonedFromGroupKindAnnotation env)
                           (GroupKindString env clonedFrom) annotations;
                       template = template\<lparr>u_annotations := Some annotations\<rparr>
                   in case GenerateName env (in_namePrefix inp) g of
                        (generated, g1) \<Rightarrow>
                          (let template = template\<lparr>u_name := generated\<rparr>;
                               template =
                                 (case in_currentObjectRef inp of
                                    None \<Rightarrow> template
                                  | Some r \<Rightarrow>
                                      if 0 < length (ref_Name r)
                                      then template\<lparr>u_name := ref_Name r\<rparr>
                                      else template)
                           in (Inr template, g1)))))"

text \<open>
  \<^verbatim>\<open>templateToTemplate\<close> on a store.  The store is the list of the allocated
  \<^verbatim>\<open>Unstructured\<close> objects and a pointer is an index into it; the objects are values,
  so two cells share nothing (as after a deep copy).  \<^verbatim>\<open>&unstructured.Unstructured{}\<close>
  allocates the next cell, and a method call on the pointer \<open>template\<close> rewrites the
  cell it points to.  A pointer beyond the store points to no object.
\<close>

type_synonym store = "unstructured list"

definition onCell :: "nat \<Rightarrow> (unstructured \<Rightarrow> unstructured) \<Rightarrow> store \<Rightarrow> store" where
  "onCell p f h = h[p := f (h ! p)]"

definition templateToTemplateStore ::
  "'g environment \<Rightarrow> nat templateToInput \<Rightarrow> store \<Rightarrow> 'g \<Rightarrow> (error + nat) \<times> store \<times> 'g" where
  "templateToTemplateStore env inp h0 g =
     (let template = length h0;
          h = h0 @ [emptyUnstructured]
      in case in_template inp of
           None \<Rightarrow> (Inl RuntimePanic, h, g)
         | Some src \<Rightarrow>
             if length h0 \<le> src then (Inl RuntimePanic, h, g)
             else
               (let h = h[template := h ! src];
                    h = onCell template (\<lambda>u. u\<lparr>u_resourceVersion := []\<rparr>) h;
                    h = onCell template (\<lambda>u. u\<lparr>u_finalizers := []\<rparr>) h;
                    h = onCell template (\<lambda>u. u\<lparr>u_uid := []\<rparr>) h;
                    h = onCell template (\<lambda>u. u\<lparr>u_selfLink := []\<rparr>) h;
                    labels =
                      (case u_labels (h ! template) of None \<Rightarrow> DAList.empty | Some l \<Rightarrow> l);
                    labels =
                      DAList.update (ClusterLabelName env) (cl_Name (in_cluster inp)) labels;
                    labels = DAList.update (ClusterTopologyOwnedLabel env) [] labels;
                    h = onCell template (\<lambda>u. u\<lparr>u_labels := Some labels\<rparr>) h;
                    annotations =
                      (case u_annotations (h ! template) of
                         None \<Rightarrow> DAList.empty
                       | Some a \<Rightarrow> a)
                in case in_templateClonedFromRef inp of
                     None \<Rightarrow> (Inl RuntimePanic, h, g)
                   | Some clonedFrom \<Rightarrow>
                       (let annotations =
                              DAList.update (TemplateClonedFromNameAnnotation env)
                                (ref_Name clonedFrom) annotations;
                            annotations =
                              DAList.update (TemplateClonedFromGroupKindAnnotation env)
                                (GroupKindString env clonedFrom) annotations;
                            h = onCell template (\<lambda>u. u\<lparr>u_annotations := Some annotations\<rparr>) h
                        in case GenerateName env (in_namePrefix inp) g of
                             (generated, g1) \<Rightarrow>
                               (let h = onCell template (\<lambda>u. u\<lparr>u_name := generated\<rparr>) h;
                                    h =
                                      (case in_currentObjectRef inp of
                                         None \<Rightarrow> h
                                       | Some r \<Rightarrow>
                                           if 0 < length (ref_Name r)
                                           then onCell template (\<lambda>u. u\<lparr>u_name := ref_Name r\<rparr>) h
                                           else h)
                                in (Inr template, h, g1)))))"

section \<open>The component computers\<close>

definition computeInfrastructureCluster ::
  "'g environment \<Rightarrow> scope \<Rightarrow> 'g \<Rightarrow> (error + unstructured) \<times> 'g" where
  "computeInfrastructureCluster env s g =
     (let template = bp_InfrastructureClusterTemplate (sc_Blueprint s);
          templateClonedFromref = cc_Infrastructure_Ref (bp_ClusterClass (sc_Blueprint s))
      in case cs_Cluster (sc_Current s) of
           None \<Rightarrow> (Inl RuntimePanic, g)
         | Some cluster \<Rightarrow>
             (let currentRef = cl_InfrastructureRef cluster
              in case templateToObject env
                        \<lparr>in_template = Some template,
                         in_templateClonedFromRef = templateClonedFromref,
                         in_cluster = cluster,
                         in_namePrefix = cl_Name cluster @ ''-'',
                         in_currentObjectRef = currentRef\<rparr> g of
                   (Inl err, g1) \<Rightarrow>
                     (Inl (Wrap err
                        (''failed to generate the InfrastructureCluster object from the ''
                          @ u_kind template)), g1)
                 | (Inr infrastructureCluster, g1) \<Rightarrow> (Inr infrastructureCluster, g1)))"

definition computeControlPlaneInfrastructureMachineTemplate ::
  "'g environment \<Rightarrow> scope \<Rightarrow> 'g \<Rightarrow> (error + unstructured) \<times> 'g" where
  "computeControlPlaneInfrastructureMachineTemplate env s g =
     (let template = cpb_InfrastructureMachineTemplate (bp_ControlPlane (sc_Blueprint s))
      in case cpc_MachineInfrastructure (cc_ControlPlane (bp_ClusterClass (sc_Blueprint s))) of
           None \<Rightarrow> (Inl RuntimePanic, g)
         | Some machineInfrastructure \<Rightarrow>
             (let templateClonedFromRef = lot_Ref machineInfrastructure;
                  currentRefResult =
                    (case cs_ControlPlane (sc_Current s) of
                       None \<Rightarrow> Inr None
                     | Some currentControlPlane \<Rightarrow>
                         (case cps_Object currentControlPlane of
                            None \<Rightarrow> Inr None
                          | Some object \<Rightarrow>
                              (case InfrastructureRefGet object of
                                 Inl err \<Rightarrow>
                                   Inl (Wrap err
                                     (''failed to get spec.machineTemplate.infrastructureRef ''
                                       @ ''for the current ControlPlane object''))
                               | Inr r \<Rightarrow> Inr r)))
              in case currentRefResult of
                   Inl err \<Rightarrow> (Inl err, g)
                 | Inr currentRef \<Rightarrow>
                     (case cs_Cluster (sc_Current s) of
                        None \<Rightarrow> (Inl RuntimePanic, g)
                      | Some cluster \<Rightarrow>
                          templateToTemplate env
                            \<lparr>in_template = template,
                             in_templateClonedFromRef = templateClonedFromRef,
                             in_cluster = cluster,
                             in_namePrefix =
                               controlPlaneInfrastructureMachineTemplateNamePrefix env
                                 (cl_Name cluster),
                             in_currentObjectRef = currentRef\<rparr> g)))"

text \<open>
  The three conditional stages of \<^verbatim>\<open>computeControlPlane\<close> after the object is
  generated, in source order: the machine-template reference and metadata (lines
  150-173), the replicas (lines 175-182), the version (lines 184-188).
\<close>

definition computeControlPlane ::
  "'g environment \<Rightarrow> scope \<Rightarrow> unstructured option \<Rightarrow> 'g \<Rightarrow> (error + unstructured) \<times> 'g" where
  "computeControlPlane env s infrastructureMachineTemplate g =
     (let template = cpb_Template (bp_ControlPlane (sc_Blueprint s));
          templateClonedFromRef = cpc_Ref (cc_ControlPlane (bp_ClusterClass (sc_Blueprint s)))
      in case cs_Cluster (sc_Current s) of
           None \<Rightarrow> (Inl RuntimePanic, g)
         | Some cluster \<Rightarrow>
             (let currentRef = cl_ControlPlaneRef cluster
              in case templateToObject env
                        \<lparr>in_template = Some template,
                         in_templateClonedFromRef = templateClonedFromRef,
                         in_cluster = cluster,
                         in_namePrefix = cl_Name cluster @ ''-'',
                         in_currentObjectRef = currentRef\<rparr> g of
                   (Inl err, g1) \<Rightarrow>
                     (Inl (Wrap err
                        (''failed to generate the ControlPlane object from the ''
                          @ u_kind template)), g1)
                 | (Inr controlPlane, g1) \<Rightarrow>
                     (let withMachineTemplate =
                            (if HasControlPlaneInfrastructureMachine (sc_Blueprint s) then
                               (case infrastructureMachineTemplate of
                                  None \<Rightarrow> Inl RuntimePanic
                                | Some imt \<Rightarrow>
                                    (case InfrastructureRefSet controlPlane imt of
                                       Inl err \<Rightarrow>
                                         Inl (Wrap err
                                           (''failed to spec.machineTemplate.infrastructureRef ''
                                             @ ''in the ControlPlane object''))
                                     | Inr controlPlane \<Rightarrow>
                                         (let topologyMetadata =
                                                cpt_Metadata
                                                  (top_ControlPlane (bp_Topology (sc_Blueprint s)));
                                              clusterClassMetadata =
                                                cpc_Metadata
                                                  (cc_ControlPlane (bp_ClusterClass (sc_Blueprint s)));
                                              machineLabels =
                                                mergeMap (om_Labels topologyMetadata)
                                                  (om_Labels clusterClassMetadata);
                                              machineLabels =
                                                DAList.update (ClusterLabelName env)
                                                  (cl_Name cluster) machineLabels;
                                              machineLabels =
                                                DAList.update (ClusterTopologyOwnedLabel env) []
                                                  machineLabels
                                          in case MetadataSet controlPlane
                                                    \<lparr>om_Labels = Some machineLabels,
                                                     om_Annotations =
                                                       Some (mergeMap
                                                         (om_Annotations topologyMetadata)
                                                         (om_Annotations clusterClassMetadata))\<rparr> of
                                               Inl err \<Rightarrow>
                                                 Inl (Wrap err
                                                   (''failed to spec.machineTemplate.metadata ''
                                                     @ ''in the ControlPlane object''))
                                             | Inr controlPlane \<Rightarrow> Inr controlPlane)))
                             else Inr controlPlane)
                      in case withMachineTemplate of
                           Inl err \<Rightarrow> (Inl err, g1)
                         | Inr controlPlane \<Rightarrow>
                             (let withReplicas =
                                    (case cpt_Replicas
                                            (top_ControlPlane (bp_Topology (sc_Blueprint s))) of
                                       None \<Rightarrow> Inr controlPlane
                                     | Some replicas \<Rightarrow>
                                         (case ReplicasSet controlPlane (scast replicas) of
                                            Inl err \<Rightarrow>
                                              Inl (Wrap err
                                                (''failed to set spec.replicas ''
                                                  @ ''in the ControlPlane object''))
                                          | Inr controlPlane \<Rightarrow> Inr controlPlane))
                              in case withReplicas of
                                   Inl err \<Rightarrow> (Inl err, g1)
                                 | Inr controlPlane \<Rightarrow>
                                     (case VersionSet controlPlane
                                             (top_Version (bp_Topology (sc_Blueprint s))) of
                                        Inl err \<Rightarrow>
                                          (Inl (Wrap err
                                             (''failed to set spec.version ''
                                               @ ''in the ControlPlane object'')), g1)
                                      | Inr controlPlane \<Rightarrow> (Inr controlPlane, g1))))))"

text \<open>
  \<^verbatim>\<open>computeCluster\<close> returns no error in Go; the only failure of the model is the
  dereference of a nil current cluster.
\<close>

definition computeCluster ::
  "'g environment \<Rightarrow> scope \<Rightarrow> unstructured \<Rightarrow> unstructured \<Rightarrow> error + cluster" where
  "computeCluster env s infrastructureCluster controlPlane =
     (case cs_Cluster (sc_Current s) of
        None \<Rightarrow> Inl RuntimePanic
      | Some current \<Rightarrow>
          (let cluster = current;
               labels = (case cl_Labels cluster of None \<Rightarrow> DAList.empty | Some l \<Rightarrow> l);
               labels = DAList.update (ClusterLabelName env) (cl_Name cluster) labels;
               labels = DAList.update (ClusterTopologyOwnedLabel env) [] labels;
               cluster = cluster\<lparr>cl_Labels := Some labels\<rparr>;
               cluster = cluster\<lparr>cl_InfrastructureRef := Some (ObjToRef infrastructureCluster)\<rparr>;
               cluster = cluster\<lparr>cl_ControlPlaneRef := Some (ObjToRef controlPlane)\<rparr>
           in Inr cluster))"

text \<open>
  The current references of a worker group's templates (lines 232-235 and 253-256).
  Both read through \<^verbatim>\<open>currentMachineDeployment.Object\<close> after a check of the
  template only, so a state with a template and no object is a nil dereference.
\<close>

definition currentBootstrapTemplateRef ::
  "machineDeploymentState option \<Rightarrow> error + objectReference option" where
  "currentBootstrapTemplateRef currentMachineDeployment =
     (case currentMachineDeployment of
        None \<Rightarrow> Inr None
      | Some cur \<Rightarrow>
          if mds_BootstrapTemplate cur \<noteq> None then
            (case mds_Object cur of
               None \<Rightarrow> Inl RuntimePanic
             | Some object \<Rightarrow> Inr (md_Template_Spec_Bootstrap_ConfigRef object))
          else Inr None)"

definition currentInfraMachineTemplateRef ::
  "machineDeploymentState option \<Rightarrow> error + objectReference option" where
  "currentInfraMachineTemplateRef currentMachineDeployment =
     (case currentMachineDeployment of
        None \<Rightarrow> Inr None
      | Some cur \<Rightarrow>
          if mds_InfrastructureMachineTemplate cur \<noteq> None then
            (case mds_Object cur of
               None \<Rightarrow> Inl RuntimePanic
             | Some object \<Rightarrow> Inr (Some (md_Template_Spec_InfrastructureRef object)))
          else Inr None)"

text \<open>
  \<^verbatim>\<open>computeMachineDeployment\<close>.  The three parts of the result are local values,
  put into the \<^verbatim>\<open>MachineDeploymentState\<close> at the end: the function returns the state
  only there.
\<close>

definition computeMachineDeployment ::
  "'g environment \<Rightarrow> scope \<Rightarrow> machineDeploymentTopology \<Rightarrow> 'g
     \<Rightarrow> (error + machineDeploymentState) \<times> 'g" where
  "computeMachineDeployment env s machineDeploymentTopology g =
     (let className = mdt_Class machineDeploymentTopology
      in case mapIndex (bp_MachineDeployments (sc_Blueprint s)) className of
           None \<Rightarrow>
             (Inl (Errorf (''MachineDeployment blueprint '' @ className
                      @ '' not found in ClusterClass ''
                      @ cc_Name (bp_ClusterClass (sc_Blueprint s)))), g)
         | Some machineDeploymentBlueprint \<Rightarrow>
      (let currentMachineDeployment =
             mapIndex (cs_MachineDeployments (sc_Current s)) (mdt_Name machineDeploymentTopology)
       in case currentBootstrapTemplateRef currentMachineDeployment of
            Inl err \<Rightarrow> (Inl err, g)
          | Inr currentBootstrapRef \<Rightarrow>
      (case cs_Cluster (sc_Current s) of
         None \<Rightarrow> (Inl RuntimePanic, g)
       | Some cluster \<Rightarrow>
      (case templateToTemplate env
              \<lparr>in_template = Some (mdb_BootstrapTemplate machineDeploymentBlueprint),
               in_templateClonedFromRef =
                 Some (ObjToRef (mdb_BootstrapTemplate machineDeploymentBlueprint)),
               in_cluster = cluster,
               in_namePrefix =
                 bootstrapTemplateNamePrefix env (cl_Name cluster)
                   (mdt_Name machineDeploymentTopology),
               in_currentObjectRef = currentBootstrapRef\<rparr> g of
         (Inl err, g1) \<Rightarrow> (Inl err, g1)
       | (Inr bootstrapTemplate, g1) \<Rightarrow>
      (let bootstrapTemplateLabels =
             (case u_labels bootstrapTemplate of None \<Rightarrow> DAList.empty | Some l \<Rightarrow> l);
           bootstrapTemplateLabels =
             DAList.update (ClusterTopologyMachineDeploymentLabelName env)
               (mdt_Name machineDeploymentTopology) bootstrapTemplateLabels;
           bootstrapTemplate = bootstrapTemplate\<lparr>u_labels := Some bootstrapTemplateLabels\<rparr>
       in case currentInfraMachineTemplateRef currentMachineDeployment of
            Inl err \<Rightarrow> (Inl err, g1)
          | Inr currentInfraRef \<Rightarrow>
      (case templateToTemplate env
              \<lparr>in_template = Some (mdb_InfrastructureMachineTemplate machineDeploymentBlueprint),
               in_templateClonedFromRef =
                 Some (ObjToRef (mdb_InfrastructureMachineTemplate machineDeploymentBlueprint)),
               in_cluster = cluster,
               in_namePrefix =
                 infrastructureMachineTemplateNamePrefix env (cl_Name cluster)
                   (mdt_Name machineDeploymentTopology),
               in_currentObjectRef = currentInfraRef\<rparr> g1 of
         (Inl err, g2) \<Rightarrow> (Inl err, g2)
       | (Inr infraMachineTemplate, g2) \<Rightarrow>
      (let infraMachineTemplateLabels =
             (case u_labels infraMachineTemplate of None \<Rightarrow> DAList.empty | Some l \<Rightarrow> l);
           infraMachineTemplateLabels =
             DAList.update (ClusterTopologyMachineDeploymentLabelName env)
               (mdt_Name machineDeploymentTopology) infraMachineTemplateLabels;
           infraMachineTemplate =
             infraMachineTemplate\<lparr>u_labels := Some infraMachineTemplateLabels\<rparr>
       in case GenerateName env
                 (cl_Name cluster @ ''-'' @ mdt_Name machineDeploymentTopology @ ''-'') g2 of
            (generated, g3) \<Rightarrow>
      (let desiredMachineDeploymentObj =
             \<lparr>md_Kind = ''MachineDeployment'',
              md_APIVersion = GroupVersionString env,
              md_Name = generated,
              md_Namespace = cl_Namespace cluster,
              md_Labels = None,
              md_ClusterName = cl_Name cluster,
              md_Replicas = None,
              md_Template_Labels =
                Some (mergeMap (om_Labels (mdt_Metadata machineDeploymentTopology))
                        (om_Labels (mdb_Metadata machineDeploymentBlueprint))),
              md_Template_Annotations =
                Some (mergeMap (om_Annotations (mdt_Metadata machineDeploymentTopology))
                        (om_Annotations (mdb_Metadata machineDeploymentBlueprint))),
              md_Template_Spec_ClusterName = cl_Name cluster,
              md_Template_Spec_Version = Some (top_Version (bp_Topology (sc_Blueprint s))),
              md_Template_Spec_Bootstrap_ConfigRef = Some (ObjToRef bootstrapTemplate),
              md_Template_Spec_InfrastructureRef = ObjToRef infraMachineTemplate\<rparr>;
           desiredMachineDeploymentObj =
             (case currentMachineDeployment of
                None \<Rightarrow> desiredMachineDeploymentObj
              | Some cur \<Rightarrow>
                  (case mds_Object cur of
                     None \<Rightarrow> desiredMachineDeploymentObj
                   | Some object \<Rightarrow> desiredMachineDeploymentObj\<lparr>md_Name := md_Name object\<rparr>));
           labels = DAList.empty;
           labels = DAList.update (ClusterLabelName env) (cl_Name cluster) labels;
           labels = DAList.update (ClusterTopologyOwnedLabel env) [] labels;
           labels =
             DAList.update (ClusterTopologyMachineDeploymentLabelName env)
               (mdt_Name machineDeploymentTopology) labels;
           desiredMachineDeploymentObj = desiredMachineDeploymentObj\<lparr>md_Labels := Some labels\<rparr>
       in case md_Template_Labels desiredMachineDeploymentObj of
            None \<Rightarrow> (Inl RuntimePanic, g3)
          | Some templateLabels \<Rightarrow>
      (let templateLabels =
             DAList.update (ClusterLabelName env) (cl_Name cluster) templateLabels;
           templateLabels = DAList.update (ClusterTopologyOwnedLabel env) [] templateLabels;
           templateLabels =
             DAList.update (ClusterTopologyMachineDeploymentLabelName env)
               (mdt_Name machineDeploymentTopology) templateLabels;
           desiredMachineDeploymentObj =
             desiredMachineDeploymentObj\<lparr>md_Template_Labels := Some templateLabels\<rparr>;
           desiredMachineDeploymentObj =
             desiredMachineDeploymentObj
               \<lparr>md_Replicas := mdt_Replicas machineDeploymentTopology\<rparr>
       in (Inr \<lparr>mds_Object = Some desiredMachineDeploymentObj,
                mds_BootstrapTemplate = Some bootstrapTemplate,
                mds_InfrastructureMachineTemplate = Some infraMachineTemplate\<rparr>, g3))))))))))"

section \<open>The orchestrator\<close>

text \<open>The loop of lines 73-79 over the topology's entries, in their order.\<close>

fun machineDeploymentsLoop ::
  "'g environment \<Rightarrow> scope \<Rightarrow> machineDeploymentTopology list
     \<Rightarrow> (string, machineDeploymentState) alist \<Rightarrow> 'g
     \<Rightarrow> (error + (string, machineDeploymentState) alist) \<times> 'g" where
  "machineDeploymentsLoop env s [] m g = (Inr m, g)"
| "machineDeploymentsLoop env s (mdTopology # rest) m g =
     (case computeMachineDeployment env s mdTopology g of
        (Inl err, g1) \<Rightarrow> (Inl err, g1)
      | (Inr desiredMachineDeployment, g1) \<Rightarrow>
          machineDeploymentsLoop env s rest
            (DAList.update (mdt_Name mdTopology) desiredMachineDeployment m) g1)"

definition computeDesiredState ::
  "'g environment \<Rightarrow> scope \<Rightarrow> 'g \<Rightarrow> (error + clusterState) \<times> 'g" where
  "computeDesiredState env s g =
     (let desiredState =
            \<lparr>cs_Cluster = None, cs_InfrastructureCluster = None,
             cs_ControlPlane =
               Some \<lparr>cps_Object = None, cps_InfrastructureMachineTemplate = None\<rparr>,
             cs_MachineDeployments = None\<rparr>
      in case computeInfrastructureCluster env s g of
           (Inl err, g1) \<Rightarrow> (Inl err, g1)
         | (Inr infrastructureCluster, g1) \<Rightarrow>
      (let desiredState = desiredState\<lparr>cs_InfrastructureCluster := Some infrastructureCluster\<rparr>
       in case (if HasControlPlaneInfrastructureMachine (sc_Blueprint s) then
                  (case computeControlPlaneInfrastructureMachineTemplate env s g1 of
                     (Inl err, g2) \<Rightarrow> (Inl err, g2)
                   | (Inr t, g2) \<Rightarrow> (Inr (Some t), g2))
                else (Inr None, g1)) of
            (Inl err, g2) \<Rightarrow> (Inl err, g2)
          | (Inr infrastructureMachineTemplate, g2) \<Rightarrow>
      (case computeControlPlane env s infrastructureMachineTemplate g2 of
         (Inl err, g3) \<Rightarrow> (Inl err, g3)
       | (Inr controlPlane, g3) \<Rightarrow>
      (let desiredState =
             desiredState
               \<lparr>cs_ControlPlane :=
                  Some \<lparr>cps_Object = Some controlPlane,
                        cps_InfrastructureMachineTemplate = infrastructureMachineTemplate\<rparr>\<rparr>
       in case computeCluster env s infrastructureCluster controlPlane of
            Inl err \<Rightarrow> (Inl err, g3)
          | Inr cluster \<Rightarrow>
      (let desiredState = desiredState\<lparr>cs_Cluster := Some cluster\<rparr>
       in if \<not> HasMachineDeployments (sc_Blueprint s) then (Inr desiredState, g3)
          else
            (case top_Workers (bp_Topology (sc_Blueprint s)) of
               None \<Rightarrow> (Inl RuntimePanic, g3)
             | Some workers \<Rightarrow>
                 (case machineDeploymentsLoop env s (wt_MachineDeployments workers)
                         DAList.empty g3 of
                    (Inl err, g4) \<Rightarrow> (Inl err, g4)
                  | (Inr machineDeployments, g4) \<Rightarrow>
                      (Inr (desiredState\<lparr>cs_MachineDeployments := Some machineDeployments\<rparr>),
                       g4))))))))"

section \<open>Predicates of the specification\<close>

text \<open>The machine-deployment entries the topology declares (none without workers).\<close>

definition topologyMachineDeployments :: "scope \<Rightarrow> machineDeploymentTopology list" where
  "topologyMachineDeployments s =
     (case top_Workers (bp_Topology (sc_Blueprint s)) of
        None \<Rightarrow> []
      | Some w \<Rightarrow> wt_MachineDeployments w)"

text \<open>The keys of the \<^verbatim>\<open>MachineDeployments\<close> map of a state; a nil map has none.\<close>

definition machineDeploymentKeys :: "clusterState \<Rightarrow> string set" where
  "machineDeploymentKeys d =
     mapKeys (cs_MachineDeployments d)"

text \<open>
  A fully populated desired state for a scope: the cluster, the infrastructure
  cluster and the control-plane object are there, the control plane's
  infrastructure-machine template is there when the blueprint asks for one, and
  every entry of the topology has its three parts under its name.
\<close>

definition machineDeploymentStateComplete :: "machineDeploymentState \<Rightarrow> bool" where
  "machineDeploymentStateComplete st =
     (mds_Object st \<noteq> None \<and> mds_BootstrapTemplate st \<noteq> None
      \<and> mds_InfrastructureMachineTemplate st \<noteq> None)"

definition fullyPopulated :: "scope \<Rightarrow> clusterState \<Rightarrow> bool" where
  "fullyPopulated s d =
     (cs_Cluster d \<noteq> None \<and> cs_InfrastructureCluster d \<noteq> None
      \<and> (case cs_ControlPlane d of
            None \<Rightarrow> False
          | Some cp \<Rightarrow>
              cps_Object cp \<noteq> None
              \<and> (HasControlPlaneInfrastructureMachine (sc_Blueprint s)
                   \<longrightarrow> cps_InfrastructureMachineTemplate cp \<noteq> None))
      \<and> (\<forall>mdTopology \<in> set (topologyMachineDeployments s).
            case mapIndex (cs_MachineDeployments d) (mdt_Name mdTopology) of
              None \<Rightarrow> False
            | Some st \<Rightarrow> machineDeploymentStateComplete st))"

text \<open>The two labels every managed object carries.\<close>

definition topologyLabels ::
  "'g environment \<Rightarrow> string \<Rightarrow> (string, string) gomap \<Rightarrow> bool" where
  "topologyLabels env clusterName labels =
     (mapIndex labels (ClusterLabelName env) = Some clusterName
      \<and> mapIndex labels (ClusterTopologyOwnedLabel env) = Some [])"

text \<open>The three label keys are different constants.\<close>

definition labelKeysDistinct :: "'g environment \<Rightarrow> bool" where
  "labelKeysDistinct env =
     distinct [ClusterLabelName env, ClusterTopologyOwnedLabel env,
               ClusterTopologyMachineDeploymentLabelName env]"

text \<open>
  Identity-preserving naming, in the spec's words: the name of the current
  reference when there is one and its name is not empty, otherwise the name the
  generator makes from the prefix (in generator state \<open>g\<close>).
\<close>

definition stableName ::
  "'g environment \<Rightarrow> objectReference option \<Rightarrow> string \<Rightarrow> 'g \<Rightarrow> string" where
  "stableName env currentRef namePrefix g =
     (case currentRef of
        None \<Rightarrow> fst (GenerateName env namePrefix g)
      | Some r \<Rightarrow>
          if ref_Name r \<noteq> [] then ref_Name r else fst (GenerateName env namePrefix g))"

text \<open>The request \<^verbatim>\<open>templateToObject\<close> hands to the template generator.\<close>

definition generateRequest ::
  "'g environment \<Rightarrow> unstructured templateToInput \<Rightarrow> generateTemplateInput" where
  "generateRequest env inp =
     \<lparr>gti_Template = in_template inp,
      gti_TemplateRef = in_templateClonedFromRef inp,
      gti_Namespace = cl_Namespace (in_cluster inp),
      gti_Labels =
        Some (DAList.update (ClusterTopologyOwnedLabel env) []
               (DAList.update (ClusterLabelName env) (cl_Name (in_cluster inp)) DAList.empty)),
      gti_ClusterName = cl_Name (in_cluster inp)\<rparr>"

text \<open>The name of the current cluster (the empty string without a cluster).\<close>

definition currentClusterName :: "scope \<Rightarrow> string" where
  "currentClusterName s = (case cs_Cluster (sc_Current s) of None \<Rightarrow> [] | Some c \<Rightarrow> cl_Name c)"

text \<open>
  The objects of a worker group, and of a whole desired state, carry the two labels:
  the cloned templates, the machine-deployment object (on the object and on its
  machine template) and the cluster.
\<close>

definition machineDeploymentStateLabelled ::
  "'g environment \<Rightarrow> string \<Rightarrow> machineDeploymentState \<Rightarrow> bool" where
  "machineDeploymentStateLabelled env n st =
     ((case mds_BootstrapTemplate st of
         None \<Rightarrow> True
       | Some t \<Rightarrow> topologyLabels env n (u_labels t))
      \<and> (case mds_InfrastructureMachineTemplate st of
            None \<Rightarrow> True
          | Some t \<Rightarrow> topologyLabels env n (u_labels t))
      \<and> (case mds_Object st of
            None \<Rightarrow> True
          | Some obj \<Rightarrow>
              topologyLabels env n (md_Labels obj)
              \<and> topologyLabels env n (md_Template_Labels obj)))"

definition stateLabelled :: "'g environment \<Rightarrow> string \<Rightarrow> clusterState \<Rightarrow> bool" where
  "stateLabelled env n d =
     ((case cs_Cluster d of
         None \<Rightarrow> True
       | Some c \<Rightarrow> cl_Name c = n \<and> topologyLabels env n (cl_Labels c))
      \<and> (case cs_ControlPlane d of
            None \<Rightarrow> True
          | Some cp \<Rightarrow>
              (case cps_InfrastructureMachineTemplate cp of
                 None \<Rightarrow> True
               | Some t \<Rightarrow> topologyLabels env n (u_labels t)))
      \<and> (\<forall>(k, st) \<in> set (rangeEntries (cs_MachineDeployments d)).
            machineDeploymentStateLabelled env n st))"

text \<open>The current machine-deployment object of a topology entry, if there is one.\<close>

definition currentMachineDeploymentObject ::
  "scope \<Rightarrow> machineDeploymentTopology \<Rightarrow> machineDeployment option" where
  "currentMachineDeploymentObject s mdTopology =
     (case mapIndex (cs_MachineDeployments (sc_Current s)) (mdt_Name mdTopology) of
        None \<Rightarrow> None
      | Some cur \<Rightarrow> mds_Object cur)"

text \<open>The error of line 227 for a class the blueprint does not have.\<close>

definition blueprintNotFound :: "scope \<Rightarrow> string \<Rightarrow> error" where
  "blueprintNotFound s className =
     Errorf (''MachineDeployment blueprint '' @ className @ '' not found in ClusterClass ''
              @ cc_Name (bp_ClusterClass (sc_Blueprint s)))"

section \<open>A concrete environment and scope\<close>

text \<open>
  The spec's end-to-end scenario: an empty current state, a blueprint with the one
  machine-deployment class \<open>default\<close>, and a topology with the one entry \<open>pool1\<close> of
  that class with three replicas.  The example name generator appends one more
  \<open>x\<close> at every call; the example template generator rejects a template whose
  content is \<open>invalid\<close>.
\<close>

definition exampleEnv :: "nat environment" where
  "exampleEnv =
     \<lparr>ClusterLabelName = ''cluster.x-k8s.io/cluster-name'',
      ClusterTopologyOwnedLabel = ''topology.cluster.x-k8s.io/owned'',
      ClusterTopologyMachineDeploymentLabelName = ''topology.cluster.x-k8s.io/deployment-name'',
      TemplateClonedFromNameAnnotation = ''cluster.x-k8s.io/cloned-from-name'',
      TemplateClonedFromGroupKindAnnotation = ''cluster.x-k8s.io/cloned-from-groupkind'',
      GroupVersionString = ''cluster.x-k8s.io/v1alpha4'',
      GenerateName = (\<lambda>prefix n. (prefix @ replicate (Suc n) (CHR ''x''), Suc n)),
      GenerateTemplate =
        (\<lambda>i n. case gti_Template i of
                  None \<Rightarrow> (Inl (Errorf ''no template''), n)
                | Some t \<Rightarrow>
                    if u_content t = ''invalid''
                    then (Inl (Errorf ''missing spec.template''), n)
                    else (Inr (t\<lparr>u_namespace := gti_Namespace i, u_labels := gti_Labels i\<rparr>), n)),
      GroupKindString =
        (\<lambda>r. ref_Kind r @ ''.'' @ takeWhile (\<lambda>c. c \<noteq> CHR ''/'') (ref_APIVersion r)),
      controlPlaneInfrastructureMachineTemplateNamePrefix = (\<lambda>c. c @ ''-control-plane-''),
      bootstrapTemplateNamePrefix = (\<lambda>c m. c @ ''-'' @ m @ ''-bootstrap-''),
      infrastructureMachineTemplateNamePrefix = (\<lambda>c m. c @ ''-'' @ m @ ''-infra-'')\<rparr>"

definition exampleTemplate :: "string \<Rightarrow> string \<Rightarrow> unstructured" where
  "exampleTemplate kind name =
     emptyUnstructured
       \<lparr>u_apiVersion := ''infra.x-k8s.io/v1'', u_kind := kind, u_name := name,
        u_namespace := ''default'', u_resourceVersion := ''42'', u_uid := ''uid-1'',
        u_finalizers := [''keep''], u_selfLink := ''/apis/t'',
        u_exposes :=
          [SpecMachineTemplateInfrastructureRef, SpecMachineTemplateMetadata, SpecReplicas,
           SpecVersion],
        u_content := ''spec''\<rparr>"

definition exampleRef :: "string \<Rightarrow> string \<Rightarrow> objectReference" where
  "exampleRef kind name =
     \<lparr>ref_Kind = kind, ref_Namespace = ''default'', ref_Name = name,
      ref_APIVersion = ''infra.x-k8s.io/v1''\<rparr>"

definition noMetadata :: objectMeta where
  "noMetadata = \<lparr>om_Labels = None, om_Annotations = None\<rparr>"

definition exampleCluster :: cluster where
  "exampleCluster =
     \<lparr>cl_Name = ''c1'', cl_Namespace = ''default'', cl_Labels = None,
      cl_InfrastructureRef = None, cl_ControlPlaneRef = None\<rparr>"

definition examplePool :: machineDeploymentTopology where
  "examplePool =
     \<lparr>mdt_Class = ''default'', mdt_Name = ''pool1'', mdt_Replicas = Some 3,
      mdt_Metadata = noMetadata\<rparr>"

definition exampleBlueprint :: clusterBlueprint where
  "exampleBlueprint =
     \<lparr>bp_Topology =
        \<lparr>top_Version = ''v1.21.2'',
         top_ControlPlane = \<lparr>cpt_Metadata = noMetadata, cpt_Replicas = Some 3\<rparr>,
         top_Workers = Some \<lparr>wt_MachineDeployments = [examplePool]\<rparr>\<rparr>,
      bp_ClusterClass =
        \<lparr>cc_Name = ''class1'',
         cc_Infrastructure_Ref = Some (exampleRef ''InfraClusterTemplate'' ''ic''),
         cc_ControlPlane =
           \<lparr>cpc_Metadata = noMetadata,
            cpc_Ref = Some (exampleRef ''ControlPlaneTemplate'' ''cp''),
            cpc_MachineInfrastructure =
              Some \<lparr>lot_Ref = Some (exampleRef ''InfraMachineTemplate'' ''cpim'')\<rparr>\<rparr>\<rparr>,
      bp_InfrastructureClusterTemplate = exampleTemplate ''InfraClusterTemplate'' ''ic'',
      bp_ControlPlane =
        \<lparr>cpb_Template = exampleTemplate ''ControlPlaneTemplate'' ''cp'',
         cpb_InfrastructureMachineTemplate =
           Some (exampleTemplate ''InfraMachineTemplate'' ''cpim'')\<rparr>,
      bp_MachineDeployments =
        Some (DAList.update ''default''
                \<lparr>mdb_Metadata = noMetadata,
                 mdb_BootstrapTemplate = exampleTemplate ''BootstrapTemplate'' ''boot'',
                 mdb_InfrastructureMachineTemplate =
                   exampleTemplate ''InfraMachineTemplate'' ''im''\<rparr>
                DAList.empty)\<rparr>"

definition exampleScope :: scope where
  "exampleScope =
     \<lparr>sc_Blueprint = exampleBlueprint,
      sc_Current =
        \<lparr>cs_Cluster = Some exampleCluster, cs_InfrastructureCluster = None,
         cs_ControlPlane = None, cs_MachineDeployments = None\<rparr>\<rparr>"

text \<open>
  Cloning inputs: a template \<open>t1\<close> of kind \<open>FooTemplate\<close> that carries a resource
  version, a UID, a finalizer and a self-link, cloned from the reference
  \<open>{Name: t1, Kind: FooTemplate}\<close>; the same with an annotation of its own; and the
  same through a pointer into a store that holds the template in cell 0.
\<close>

definition exampleInput :: "unstructured templateToInput" where
  "exampleInput =
     \<lparr>in_template = Some (exampleTemplate ''FooTemplate'' ''t1''),
      in_templateClonedFromRef = Some (exampleRef ''FooTemplate'' ''t1''),
      in_cluster = exampleCluster,
      in_namePrefix = ''c1-foo-'',
      in_currentObjectRef = None\<rparr>"

definition annotatedInput :: "unstructured templateToInput" where
  "annotatedInput =
     \<lparr>in_template =
        Some ((exampleTemplate ''FooTemplate'' ''t1'')
                \<lparr>u_annotations := Some (DAList.update ''note'' ''x'' DAList.empty)\<rparr>),
      in_templateClonedFromRef = Some (exampleRef ''FooTemplate'' ''t1''),
      in_cluster = exampleCluster,
      in_namePrefix = ''c1-foo-'',
      in_currentObjectRef = None\<rparr>"

definition exampleStore :: store where
  "exampleStore = [exampleTemplate ''FooTemplate'' ''t1'']"

definition examplePointerInput :: "nat templateToInput" where
  "examplePointerInput =
     \<lparr>in_template = Some 0,
      in_templateClonedFromRef = Some (exampleRef ''FooTemplate'' ''t1''),
      in_cluster = exampleCluster,
      in_namePrefix = ''c1-foo-'',
      in_currentObjectRef = None\<rparr>"

text \<open>
  Variations of the example scope: a template for the infrastructure cluster that
  the generator rejects; a second entry \<open>pool2\<close> of a class \<open>ghost\<close> that the blueprint
  does not have; both at once; a current machine deployment \<open>pool1\<close> whose object has
  an empty name; a control-plane template whose schema has no replicas field, with
  no replica count in the topology.
\<close>

definition ghostPool :: machineDeploymentTopology where
  "ghostPool =
     \<lparr>mdt_Class = ''ghost'', mdt_Name = ''pool2'', mdt_Replicas = None,
      mdt_Metadata = noMetadata\<rparr>"

definition invalidInfrastructureBlueprint :: clusterBlueprint where
  "invalidInfrastructureBlueprint =
     exampleBlueprint
       \<lparr>bp_InfrastructureClusterTemplate :=
          (exampleTemplate ''InfraClusterTemplate'' ''ic'')\<lparr>u_content := ''invalid''\<rparr>\<rparr>"

definition invalidInfrastructureScope :: scope where
  "invalidInfrastructureScope = exampleScope\<lparr>sc_Blueprint := invalidInfrastructureBlueprint\<rparr>"

definition ghostTopology :: topology where
  "ghostTopology =
     (bp_Topology exampleBlueprint)
       \<lparr>top_Workers := Some \<lparr>wt_MachineDeployments = [examplePool, ghostPool]\<rparr>\<rparr>"

definition ghostScope :: scope where
  "ghostScope = exampleScope\<lparr>sc_Blueprint := exampleBlueprint\<lparr>bp_Topology := ghostTopology\<rparr>\<rparr>"

definition invalidInfrastructureGhostScope :: scope where
  "invalidInfrastructureGhostScope =
     exampleScope\<lparr>sc_Blueprint := invalidInfrastructureBlueprint\<lparr>bp_Topology := ghostTopology\<rparr>\<rparr>"

definition unnamedMachineDeployment :: machineDeployment where
  "unnamedMachineDeployment =
     \<lparr>md_Kind = ''MachineDeployment'', md_APIVersion = ''cluster.x-k8s.io/v1alpha4'',
      md_Name = [], md_Namespace = ''default'', md_Labels = None, md_ClusterName = ''c1'',
      md_Replicas = None, md_Template_Labels = None, md_Template_Annotations = None,
      md_Template_Spec_ClusterName = ''c1'', md_Template_Spec_Version = None,
      md_Template_Spec_Bootstrap_ConfigRef = None,
      md_Template_Spec_InfrastructureRef = exampleRef ''InfraMachineTemplate'' ''im1''\<rparr>"

definition unnamedCurrentScope :: scope where
  "unnamedCurrentScope =
     exampleScope
       \<lparr>sc_Current :=
          \<lparr>cs_Cluster = Some exampleCluster, cs_InfrastructureCluster = None,
           cs_ControlPlane = None,
           cs_MachineDeployments =
             Some (DAList.update ''pool1''
                     \<lparr>mds_Object = Some unnamedMachineDeployment,
                      mds_BootstrapTemplate = None,
                      mds_InfrastructureMachineTemplate = None\<rparr>
                     DAList.empty)\<rparr>\<rparr>"

definition unmanagedReplicasScope :: scope where
  "unmanagedReplicasScope =
     exampleScope
       \<lparr>sc_Blueprint :=
          exampleBlueprint
            \<lparr>bp_Topology :=
               (bp_Topology exampleBlueprint)
                 \<lparr>top_ControlPlane := \<lparr>cpt_Metadata = noMetadata, cpt_Replicas = None\<rparr>\<rparr>,
             bp_ControlPlane :=
               \<lparr>cpb_Template =
                  (exampleTemplate ''ControlPlaneTemplate'' ''cp'')
                    \<lparr>u_exposes :=
                       [SpecMachineTemplateInfrastructureRef, SpecMachineTemplateMetadata,
                        SpecVersion],
                     u_replicas := Some 5\<rparr>,
                cpb_InfrastructureMachineTemplate =
                  Some (exampleTemplate ''InfraMachineTemplate'' ''cpim'')\<rparr>\<rparr>\<rparr>"

text \<open>
  Two more: a current control-plane object whose schema does not expose the
  machine-template infrastructure reference, and a control-plane template whose
  schema exposes none of the well-known paths.
\<close>

definition unreadableControlPlaneScope :: scope where
  "unreadableControlPlaneScope =
     exampleScope
       \<lparr>sc_Current :=
          \<lparr>cs_Cluster = Some exampleCluster, cs_InfrastructureCluster = None,
           cs_ControlPlane =
             Some \<lparr>cps_Object =
                     Some ((exampleTemplate ''ControlPlane'' ''cp1'')\<lparr>u_exposes := []\<rparr>),
                   cps_InfrastructureMachineTemplate = None\<rparr>,
           cs_MachineDeployments = None\<rparr>\<rparr>"

definition opaqueControlPlaneScope :: scope where
  "opaqueControlPlaneScope =
     exampleScope
       \<lparr>sc_Blueprint :=
          exampleBlueprint
            \<lparr>bp_ControlPlane :=
               \<lparr>cpb_Template =
                  (exampleTemplate ''ControlPlaneTemplate'' ''cp'')\<lparr>u_exposes := []\<rparr>,
                cpb_InfrastructureMachineTemplate =
                  Some (exampleTemplate ''InfraMachineTemplate'' ''cpim'')\<rparr>\<rparr>\<rparr>"

text \<open>The first cloning input again, with a current reference named \<open>kept\<close>.\<close>

definition reusingInput :: "unstructured templateToInput" where
  "reusingInput =
     \<lparr>in_template = Some (exampleTemplate ''FooTemplate'' ''t1''),
      in_templateClonedFromRef = Some (exampleRef ''FooTemplate'' ''t1''),
      in_cluster = exampleCluster,
      in_namePrefix = ''c1-foo-'',
      in_currentObjectRef = Some (exampleRef ''FooTemplate'' ''kept'')\<rparr>"

section \<open>Facts about Go maps\<close>

lemma mapIndex_None: "mapIndex None = Map.empty"
  by (rule ext) (simp add: mapIndex_def)

lemma mapIndex_Some: "mapIndex (Some a) = DAList.lookup a"
  by (rule ext) (simp add: mapIndex_def)

lemma mapIndex_rangeEntries: "map_of (rangeEntries m) = mapIndex m"
  by (cases m) (simp_all add: rangeEntries_def mapIndex_None mapIndex_Some DAList.lookup.rep_eq)

lemma distinct_rangeEntries: "distinct (map fst (rangeEntries m))"
  by (cases m) (simp_all add: rangeEntries_def)

lemma mapKeys_dom: "mapKeys m = dom (mapIndex m)"
  by (cases m)
    (simp_all add: mapKeys_def mapIndex_None mapIndex_Some DAList.lookup.rep_eq
      dom_map_of_conv_image_fst)

lemma mapKeys_update: "mapKeys (Some (DAList.update k v m)) = insert k (mapKeys (Some m))"
  by (auto simp: mapKeys_dom mapIndex_Some DAList.lookup_update split: if_splits)

text \<open>
  A \<^verbatim>\<open>range\<close> loop that assigns every visited entry: afterwards a key of the ranged
  map has that map's value, and every other key keeps what it had.
\<close>

lemma lookup_fold_update:
  "distinct (map fst es) \<Longrightarrow>
   DAList.lookup (fold (\<lambda>(k, v) m. DAList.update k v m) es m) k =
     (case map_of es k of Some v \<Rightarrow> Some v | None \<Rightarrow> DAList.lookup m k)"
proof (induction es arbitrary: m)
  case Nil
  then show ?case by simp
next
  case (Cons e es)
  obtain k' v' where e: "e = (k', v')" by (cases e)
  from Cons.prems have d: "distinct (map fst es)" and n: "k' \<notin> fst ` set es"
    by (auto simp: e)
  have "map_of es k' = None" using n by (simp add: map_of_eq_None_iff)
  then show ?case
    using Cons.IH[OF d] by (auto simp: e DAList.lookup_update split: option.splits)
qed

lemma lookup_mergeMap:
  "DAList.lookup (mergeMap a b) k =
     (case mapIndex a k of Some v \<Rightarrow> Some v | None \<Rightarrow> mapIndex b k)"
  by (simp add: mergeMap_def lookup_fold_update distinct_rangeEntries mapIndex_rangeEntries
      split: option.splits)

section \<open>mergeMap: union, the first map wins\<close>

text \<open>
  C6.  For all string maps \<open>primary\<close> and \<open>secondary\<close> (nil or not), the map
  \<open>mergeMap primary secondary\<close> holds, at every key, \<open>primary\<close>'s value where \<open>primary\<close>
  has the key and \<open>secondary\<close>'s value otherwise; its keys are the union of the keys of
  both; and merging \<open>{a: 1}\<close> with \<open>{a: 2, b: 3}\<close> gives \<open>{a: 1, b: 3}\<close>.  The function
  is total and returns a map, never an error.
\<close>

theorem mergeMap_union_primary_wins:
  "mapIndex (Some (mergeMap primary secondary)) k =
     (case mapIndex primary k of Some v \<Rightarrow> Some v | None \<Rightarrow> mapIndex secondary k)
   \<and> mapKeys (Some (mergeMap primary secondary)) = mapKeys primary \<union> mapKeys secondary
   \<and> mergeMap (Some (DAList.update ''a'' ''1'' DAList.empty))
        (Some (DAList.update ''b'' ''3'' (DAList.update ''a'' ''2'' DAList.empty)))
      = DAList.update ''b'' ''3'' (DAList.update ''a'' ''1'' DAList.empty)"
proof (intro conjI)
  show "mapIndex (Some (mergeMap primary secondary)) k =
     (case mapIndex primary k of Some v \<Rightarrow> Some v | None \<Rightarrow> mapIndex secondary k)"
    by (simp add: mapIndex_Some lookup_mergeMap)
  show "mapKeys (Some (mergeMap primary secondary)) = mapKeys primary \<union> mapKeys secondary"
    by (auto simp: mapKeys_dom mapIndex_Some lookup_mergeMap split: option.splits)
  show "mergeMap (Some (DAList.update ''a'' ''1'' DAList.empty))
        (Some (DAList.update ''b'' ''3'' (DAList.update ''a'' ''2'' DAList.empty)))
      = DAList.update ''b'' ''3'' (DAList.update ''a'' ''1'' DAList.empty)"
    by (simp add: DAList.alist_eq_iff mergeMap_def rangeEntries_def DAList.update.rep_eq
        DAList.empty.rep_eq)
qed

theorem mergeMap_union_primary_wins_witness:
  "mapIndex (Some (mergeMap (Some (DAList.update ''a'' ''1'' DAList.empty)) None)) ''a''
     = Some ''1''
   \<and> mapIndex (Some (mergeMap None (Some (DAList.update ''a'' ''2'' DAList.empty)))) ''a''
     = Some ''2''
   \<and> mapKeys (Some (mergeMap None None)) = ({} :: string set)"
  using mergeMap_union_primary_wins [of "Some (DAList.update ''a'' ''1'' DAList.empty)" None "''a''"]
    mergeMap_union_primary_wins [of None "Some (DAList.update ''a'' ''2'' DAList.empty)" "''a''"]
    mergeMap_union_primary_wins [of None None "''a''"]
  by (simp add: mapIndex_def mapKeys_def)

section \<open>Evaluating the examples\<close>

lemmas example_defs = exampleEnv_def exampleTemplate_def exampleRef_def noMetadata_def
  exampleCluster_def examplePool_def exampleBlueprint_def exampleScope_def emptyUnstructured_def
  exampleInput_def annotatedInput_def exampleStore_def examplePointerInput_def
  ghostPool_def invalidInfrastructureBlueprint_def invalidInfrastructureScope_def
  ghostTopology_def ghostScope_def invalidInfrastructureGhostScope_def
  unnamedMachineDeployment_def unnamedCurrentScope_def unmanagedReplicasScope_def
  unreadableControlPlaneScope_def opaqueControlPlaneScope_def reusingInput_def

lemmas model_defs = computeDesiredState_def computeInfrastructureCluster_def
  computeControlPlaneInfrastructureMachineTemplate_def computeControlPlane_def computeCluster_def
  computeMachineDeployment_def templateToObject_def templateToTemplate_def
  currentBootstrapTemplateRef_def currentInfraMachineTemplateRef_def
  HasControlPlaneInfrastructureMachine_def HasMachineDeployments_def ObjToRef_def
  InfrastructureRefGet_def InfrastructureRefSet_def MetadataSet_def ReplicasSet_def VersionSet_def
  exposes_def

lemmas eval_defs = mapIndex_def mapKeys_def rangeEntries_def mergeMap_def Let_def
  DAList.update.rep_eq DAList.empty.rep_eq

section \<open>templateToTemplate: bookkeeping fields, provenance\<close>

lemma templateToTemplate_bookkeeping:
  assumes "in_template inp = Some src" and "in_templateClonedFromRef inp = Some r"
  shows "\<exists>t g'. templateToTemplate env inp g = (Inr t, g')
           \<and> u_resourceVersion t = [] \<and> u_finalizers t = [] \<and> u_uid t = []
           \<and> u_selfLink t = []"
  using assms
  by (simp add: templateToTemplate_def Let_def split: prod.splits option.splits)

text \<open>
  C10.  For every input whose template and cloned-from reference are not nil (the
  function dereferences both), \<open>templateToTemplate\<close> returns a template, and that
  template has an empty self-link next to its empty resource version, UID and
  finalizers, whatever the source template carried.
\<close>

theorem templateToTemplate_clears_selfLink:
  assumes "in_template inp = Some src" and "in_templateClonedFromRef inp = Some r"
  shows "\<exists>t g'. templateToTemplate env inp g = (Inr t, g')
           \<and> u_selfLink t = [] \<and> u_resourceVersion t = [] \<and> u_uid t = []
           \<and> u_finalizers t = []"
  using templateToTemplate_bookkeeping [OF assms, of env g] by blast

theorem templateToTemplate_clears_selfLink_witness:
  "u_selfLink (exampleTemplate ''FooTemplate'' ''t1'') = ''/apis/t''
   \<and> (\<exists>t g'. templateToTemplate exampleEnv exampleInput 0 = (Inr t, g')
           \<and> u_selfLink t = [] \<and> u_resourceVersion t = [] \<and> u_uid t = []
           \<and> u_finalizers t = [])"
  using templateToTemplate_clears_selfLink [of exampleInput
      "exampleTemplate ''FooTemplate'' ''t1''" "exampleRef ''FooTemplate'' ''t1''" exampleEnv 0]
  by (simp add: exampleInput_def exampleTemplate_def)

text \<open>
  The store model computes the object of the value model, in a new cell after the
  cells that were there.
\<close>

lemma onCell_last: "onCell (length h) f (h @ [x]) = h @ [f x]"
  by (simp add: onCell_def)

lemma templateToTemplateStore_refines:
  assumes "in_template inp = Some p" and "p < length h"
    and "in_templateClonedFromRef inp = Some r"
  shows "\<exists>t g'. templateToTemplate env
             \<lparr>in_template = Some (h ! p),
              in_templateClonedFromRef = in_templateClonedFromRef inp,
              in_cluster = in_cluster inp,
              in_namePrefix = in_namePrefix inp,
              in_currentObjectRef = in_currentObjectRef inp\<rparr> g = (Inr t, g')
          \<and> templateToTemplateStore env inp h g = (Inr (length h), h @ [t], g')"
  using assms
  by (simp add: templateToTemplateStore_def templateToTemplate_def Let_def onCell_last nth_append
      split: prod.splits option.splits)

text \<open>
  C7.  For every store and every input whose template pointer points into the store
  (and whose cloned-from reference is not nil), \<open>templateToTemplate\<close> returns a pointer
  to a new cell whose object has an empty resource version, UID and finalizer list,
  whatever the source carried; every cell that was there before, the source template
  among them, holds the object it held: the copy is changed, the source is not.
\<close>

theorem templateToTemplateStore_clears_copy:
  assumes "in_template inp = Some p" and "p < length h"
    and "in_templateClonedFromRef inp = Some r"
  shows "\<exists>h' g'. templateToTemplateStore env inp h g = (Inr (length h), h', g')
           \<and> length h' = Suc (length h) \<and> take (length h) h' = h \<and> h' ! p = h ! p
           \<and> u_resourceVersion (h' ! length h) = [] \<and> u_uid (h' ! length h) = []
           \<and> u_finalizers (h' ! length h) = []"
proof -
  let ?vin = "\<lparr>in_template = Some (h ! p),
              in_templateClonedFromRef = in_templateClonedFromRef inp,
              in_cluster = in_cluster inp,
              in_namePrefix = in_namePrefix inp,
              in_currentObjectRef = in_currentObjectRef inp\<rparr>"
  from templateToTemplateStore_refines[OF assms, of env g]
  obtain t g' where v: "templateToTemplate env ?vin g = (Inr t, g')"
    and st: "templateToTemplateStore env inp h g = (Inr (length h), h @ [t], g')"
    by blast
  from templateToTemplate_bookkeeping[of ?vin "h ! p" r env g] assms(3) v
  have "u_resourceVersion t = [] \<and> u_uid t = [] \<and> u_finalizers t = []" by simp
  with st assms(2) show ?thesis by (simp add: nth_append)
qed

theorem templateToTemplateStore_clears_copy_witness:
  "\<exists>h' g'. templateToTemplateStore exampleEnv examplePointerInput exampleStore 0 = (Inr 1, h', g')
     \<and> u_resourceVersion (h' ! 0) = ''42'' \<and> u_uid (h' ! 0) = ''uid-1''
     \<and> u_finalizers (h' ! 0) = [''keep'']
     \<and> u_resourceVersion (h' ! 1) = [] \<and> u_uid (h' ! 1) = [] \<and> u_finalizers (h' ! 1) = []"
  using templateToTemplateStore_clears_copy [of examplePointerInput 0 exampleStore
      "exampleRef ''FooTemplate'' ''t1''" exampleEnv 0]
  by (auto simp: examplePointerInput_def exampleStore_def exampleTemplate_def)

lemma mapKeys_None: "mapKeys None = {}"
  by (simp add: mapKeys_def)

lemma mapKeys_empty: "mapKeys (Some DAList.empty) = {}"
  by (simp add: mapKeys_def DAList.empty.rep_eq)

lemma templateToTemplate_annotations:
  assumes "in_template inp = Some src" and "in_templateClonedFromRef inp = Some r"
  shows "\<exists>t g'. templateToTemplate env inp g = (Inr t, g')
           \<and> u_annotations t =
               Some (DAList.update (TemplateClonedFromGroupKindAnnotation env)
                       (GroupKindString env r)
                       (DAList.update (TemplateClonedFromNameAnnotation env) (ref_Name r)
                          (case u_annotations src of None \<Rightarrow> DAList.empty | Some a \<Rightarrow> a)))"
  using assms
  by (simp add: templateToTemplate_def Let_def split: prod.splits option.splits)

text \<open>
  C8, amended.  For every input whose template and cloned-from reference \<open>ref\<close> are
  not nil, the annotations of the returned template are the annotations of the
  source template with the cloned-from-name key set to \<open>ref\<close>'s name and the
  cloned-from-group-kind key set to \<open>ref\<close>'s group-kind string; the keys are the
  source's keys and these two (exactly these two when the source has none).  The
  two keys are different constants.
\<close>

theorem templateToTemplate_provenance:
  assumes "in_template inp = Some src" and "in_templateClonedFromRef inp = Some r"
    and "TemplateClonedFromNameAnnotation env \<noteq> TemplateClonedFromGroupKindAnnotation env"
  shows "\<exists>t g'. templateToTemplate env inp g = (Inr t, g')
           \<and> mapIndex (u_annotations t) (TemplateClonedFromNameAnnotation env)
               = Some (ref_Name r)
           \<and> mapIndex (u_annotations t) (TemplateClonedFromGroupKindAnnotation env)
               = Some (GroupKindString env r)
           \<and> mapIndex (u_annotations t)
               = (mapIndex (u_annotations src))
                   (TemplateClonedFromNameAnnotation env \<mapsto> ref_Name r,
                    TemplateClonedFromGroupKindAnnotation env \<mapsto> GroupKindString env r)
           \<and> mapKeys (u_annotations t)
               = mapKeys (u_annotations src)
                 \<union> {TemplateClonedFromNameAnnotation env,
                     TemplateClonedFromGroupKindAnnotation env}"
proof -
  from templateToTemplate_annotations[OF assms(1,2), of env g]
  obtain t g' where run: "templateToTemplate env inp g = (Inr t, g')"
    and ann: "u_annotations t =
               Some (DAList.update (TemplateClonedFromGroupKindAnnotation env)
                       (GroupKindString env r)
                       (DAList.update (TemplateClonedFromNameAnnotation env) (ref_Name r)
                          (case u_annotations src of None \<Rightarrow> DAList.empty | Some a \<Rightarrow> a)))"
    by blast
  have src: "mapIndex (u_annotations src)
      = DAList.lookup (case u_annotations src of None \<Rightarrow> DAList.empty | Some a \<Rightarrow> a)"
    by (cases "u_annotations src") (simp_all add: mapIndex_None mapIndex_Some fun_eq_iff)
  have keys: "mapKeys (u_annotations src)
      = mapKeys (Some (case u_annotations src of None \<Rightarrow> DAList.empty | Some a \<Rightarrow> a))"
    by (cases "u_annotations src") (simp_all add: mapKeys_None mapKeys_empty)
  have "mapIndex (u_annotations t) (TemplateClonedFromNameAnnotation env) = Some (ref_Name r)"
    using assms(3) by (simp add: ann mapIndex_Some DAList.lookup_update)
  moreover have "mapIndex (u_annotations t) (TemplateClonedFromGroupKindAnnotation env)
      = Some (GroupKindString env r)"
    by (simp add: ann mapIndex_Some)
  moreover have "mapIndex (u_annotations t)
      = (mapIndex (u_annotations src))
          (TemplateClonedFromNameAnnotation env \<mapsto> ref_Name r,
           TemplateClonedFromGroupKindAnnotation env \<mapsto> GroupKindString env r)"
    by (simp add: ann src mapIndex_Some DAList.lookup_update fun_eq_iff)
  moreover have "mapKeys (u_annotations t)
      = mapKeys (u_annotations src)
        \<union> {TemplateClonedFromNameAnnotation env, TemplateClonedFromGroupKindAnnotation env}"
    by (auto simp: ann keys mapKeys_update)
  ultimately show ?thesis using run by blast
qed

theorem templateToTemplate_provenance_witness:
  "\<exists>t g'. templateToTemplate exampleEnv exampleInput 0 = (Inr t, g')
     \<and> mapIndex (u_annotations t) ''cluster.x-k8s.io/cloned-from-name'' = Some ''t1''
     \<and> mapIndex (u_annotations t) ''cluster.x-k8s.io/cloned-from-groupkind''
         = Some ''FooTemplate.infra.x-k8s.io''
     \<and> mapKeys (u_annotations t)
         = {''cluster.x-k8s.io/cloned-from-name'', ''cluster.x-k8s.io/cloned-from-groupkind''}"
  using templateToTemplate_provenance [of exampleInput "exampleTemplate ''FooTemplate'' ''t1''"
      "exampleRef ''FooTemplate'' ''t1''" exampleEnv 0]
  by (auto simp: exampleInput_def exampleTemplate_def exampleRef_def exampleEnv_def
      emptyUnstructured_def mapKeys_def)

text \<open>
  C8 as stated fails: a source template with the annotation \<open>note: x\<close> yields a
  template that still carries \<open>note\<close>, so its annotations are not exactly the two
  provenance annotations.
\<close>

theorem templateToTemplate_provenance_counterexample:
  "(case fst (templateToTemplate exampleEnv annotatedInput 0) of
      Inl e \<Rightarrow> False
    | Inr t \<Rightarrow>
        mapIndex (u_annotations t) ''note'' = Some ''x''
        \<and> mapKeys (u_annotations t)
            \<noteq> {TemplateClonedFromNameAnnotation exampleEnv,
                TemplateClonedFromGroupKindAnnotation exampleEnv})"
proof -
  have "''note'' \<notin> {TemplateClonedFromNameAnnotation exampleEnv,
                TemplateClonedFromGroupKindAnnotation exampleEnv}"
    by (simp add: exampleEnv_def)
  moreover have "fst (templateToTemplate exampleEnv annotatedInput 0) =
      Inr ((exampleTemplate ''FooTemplate'' ''t1'')
             \<lparr>u_name := ''c1-foo-x'', u_resourceVersion := [], u_uid := [], u_finalizers := [],
              u_selfLink := [],
              u_labels := Some (DAList.update ''topology.cluster.x-k8s.io/owned'' []
                 (DAList.update ''cluster.x-k8s.io/cluster-name'' ''c1'' DAList.empty)),
              u_annotations := Some (DAList.update ''cluster.x-k8s.io/cloned-from-groupkind''
                 ''FooTemplate.infra.x-k8s.io''
                 (DAList.update ''cluster.x-k8s.io/cloned-from-name'' ''t1''
                    (DAList.update ''note'' ''x'' DAList.empty)))\<rparr>)"
    by (simp add: templateToTemplate_def example_defs Let_def)
  ultimately show ?thesis
    by (auto simp: mapIndex_Some DAList.lookup_update mapKeys_update)
qed

section \<open>computeMachineDeployment\<close>

text \<open>
  What a successful run of \<open>computeMachineDeployment\<close> went through: the class was
  found, the cluster is there, both templates were cloned, a name was generated, and
  the three parts of the result are as the source builds them.
\<close>

lemma computeMachineDeployment_success:
  assumes "computeMachineDeployment env s t g = (Inr st, g')"
  shows "\<exists>mdb cluster bref bt g1 iref it g2 generated.
      mapIndex (bp_MachineDeployments (sc_Blueprint s)) (mdt_Class t) = Some mdb
    \<and> cs_Cluster (sc_Current s) = Some cluster
    \<and> currentBootstrapTemplateRef
         (mapIndex (cs_MachineDeployments (sc_Current s)) (mdt_Name t)) = Inr bref
    \<and> templateToTemplate env
         \<lparr>in_template = Some (mdb_BootstrapTemplate mdb),
          in_templateClonedFromRef = Some (ObjToRef (mdb_BootstrapTemplate mdb)),
          in_cluster = cluster,
          in_namePrefix = bootstrapTemplateNamePrefix env (cl_Name cluster) (mdt_Name t),
          in_currentObjectRef = bref\<rparr> g = (Inr bt, g1)
    \<and> currentInfraMachineTemplateRef
         (mapIndex (cs_MachineDeployments (sc_Current s)) (mdt_Name t)) = Inr iref
    \<and> templateToTemplate env
         \<lparr>in_template = Some (mdb_InfrastructureMachineTemplate mdb),
          in_templateClonedFromRef = Some (ObjToRef (mdb_InfrastructureMachineTemplate mdb)),
          in_cluster = cluster,
          in_namePrefix =
            infrastructureMachineTemplateNamePrefix env (cl_Name cluster) (mdt_Name t),
          in_currentObjectRef = iref\<rparr> g1 = (Inr it, g2)
    \<and> GenerateName env (cl_Name cluster @ ''-'' @ mdt_Name t @ ''-'') g2 = (generated, g')
    \<and> mds_BootstrapTemplate st =
        Some (bt\<lparr>u_labels :=
                Some (DAList.update (ClusterTopologyMachineDeploymentLabelName env) (mdt_Name t)
                        (case u_labels bt of None \<Rightarrow> DAList.empty | Some l \<Rightarrow> l))\<rparr>)
    \<and> mds_InfrastructureMachineTemplate st =
        Some (it\<lparr>u_labels :=
                Some (DAList.update (ClusterTopologyMachineDeploymentLabelName env) (mdt_Name t)
                        (case u_labels it of None \<Rightarrow> DAList.empty | Some l \<Rightarrow> l))\<rparr>)
    \<and> (\<exists>obj. mds_Object st = Some obj
          \<and> md_Name obj =
              (case currentMachineDeploymentObject s t of
                 Some cur \<Rightarrow> md_Name cur
               | None \<Rightarrow> generated)
          \<and> md_Labels obj =
              Some (DAList.update (ClusterTopologyMachineDeploymentLabelName env) (mdt_Name t)
                     (DAList.update (ClusterTopologyOwnedLabel env) []
                        (DAList.update (ClusterLabelName env) (cl_Name cluster) DAList.empty)))
          \<and> md_Template_Labels obj =
              Some (DAList.update (ClusterTopologyMachineDeploymentLabelName env) (mdt_Name t)
                     (DAList.update (ClusterTopologyOwnedLabel env) []
                        (DAList.update (ClusterLabelName env) (cl_Name cluster)
                           (mergeMap (om_Labels (mdt_Metadata t))
                              (om_Labels (mdb_Metadata mdb))))))
          \<and> md_Replicas obj = mdt_Replicas t)"
proof (cases "mapIndex (bp_MachineDeployments (sc_Blueprint s)) (mdt_Class t)")
  case None
  with assms show ?thesis by (simp add: computeMachineDeployment_def Let_def)
next
  case mdb: (Some mdb)
  show ?thesis
  proof (cases "currentBootstrapTemplateRef
         (mapIndex (cs_MachineDeployments (sc_Current s)) (mdt_Name t))")
    case (Inl e)
    with assms mdb show ?thesis by (simp add: computeMachineDeployment_def Let_def)
  next
    case bref: (Inr bref)
    show ?thesis
    proof (cases "cs_Cluster (sc_Current s)")
      case None
      with assms mdb bref show ?thesis by (simp add: computeMachineDeployment_def Let_def)
    next
      case cl: (Some cluster)
      obtain rb g1 where tb: "templateToTemplate env
         \<lparr>in_template = Some (mdb_BootstrapTemplate mdb),
          in_templateClonedFromRef = Some (ObjToRef (mdb_BootstrapTemplate mdb)),
          in_cluster = cluster,
          in_namePrefix = bootstrapTemplateNamePrefix env (cl_Name cluster) (mdt_Name t),
          in_currentObjectRef = bref\<rparr> g = (rb, g1)" by (cases "templateToTemplate env
         \<lparr>in_template = Some (mdb_BootstrapTemplate mdb),
          in_templateClonedFromRef = Some (ObjToRef (mdb_BootstrapTemplate mdb)),
          in_cluster = cluster,
          in_namePrefix = bootstrapTemplateNamePrefix env (cl_Name cluster) (mdt_Name t),
          in_currentObjectRef = bref\<rparr> g")
      show ?thesis
      proof (cases rb)
        case (Inl e)
        with assms mdb bref cl tb show ?thesis
          by (simp add: computeMachineDeployment_def Let_def)
      next
        case bt: (Inr bt)
        show ?thesis
        proof (cases "currentInfraMachineTemplateRef
           (mapIndex (cs_MachineDeployments (sc_Current s)) (mdt_Name t))")
          case (Inl e)
          with assms mdb bref cl tb bt show ?thesis
            by (simp add: computeMachineDeployment_def Let_def)
        next
          case iref: (Inr iref)
          obtain ri g2 where ti: "templateToTemplate env
             \<lparr>in_template = Some (mdb_InfrastructureMachineTemplate mdb),
              in_templateClonedFromRef = Some (ObjToRef (mdb_InfrastructureMachineTemplate mdb)),
              in_cluster = cluster,
              in_namePrefix =
                infrastructureMachineTemplateNamePrefix env (cl_Name cluster) (mdt_Name t),
              in_currentObjectRef = iref\<rparr> g1 = (ri, g2)" by (cases "templateToTemplate env
             \<lparr>in_template = Some (mdb_InfrastructureMachineTemplate mdb),
              in_templateClonedFromRef = Some (ObjToRef (mdb_InfrastructureMachineTemplate mdb)),
              in_cluster = cluster,
              in_namePrefix =
                infrastructureMachineTemplateNamePrefix env (cl_Name cluster) (mdt_Name t),
              in_currentObjectRef = iref\<rparr> g1")
          show ?thesis
          proof (cases ri)
            case (Inl e)
            with assms mdb bref cl tb bt iref ti show ?thesis
              by (simp add: computeMachineDeployment_def Let_def)
          next
            case it: (Inr it)
            obtain generated g3 where gn:
              "GenerateName env (cl_Name cluster @ ''-'' @ mdt_Name t @ ''-'') g2 = (generated, g3)"
              by (cases "GenerateName env (cl_Name cluster @ ''-'' @ mdt_Name t @ ''-'') g2")
            from assms mdb bref cl tb bt iref ti it gn
            show ?thesis
              by (cases "mapIndex (cs_MachineDeployments (sc_Current s)) (mdt_Name t)")
                (auto simp: computeMachineDeployment_def Let_def
                  currentMachineDeploymentObject_def split: option.splits)
          qed
        qed
      qed
    qed
  qed
qed

lemma templateToTemplate_labels:
  assumes "templateToTemplate env inp g = (Inr t, g')"
    and "ClusterLabelName env \<noteq> ClusterTopologyOwnedLabel env"
  shows "topologyLabels env (cl_Name (in_cluster inp)) (u_labels t)"
  using assms
  by (auto simp: templateToTemplate_def Let_def topologyLabels_def mapIndex_Some
      DAList.lookup_update split: prod.splits option.splits if_splits)

lemma templateToTemplate_name:
  assumes "templateToTemplate env inp g = (Inr t, g')"
  shows "u_name t = stableName env (in_currentObjectRef inp) (in_namePrefix inp) g"
  using assms
  by (auto simp: templateToTemplate_def Let_def stableName_def
      split: prod.splits option.splits if_splits)

lemma templateToObject_name:
  assumes "templateToObject env inp g = (Inr obj, g')"
  shows "\<exists>gen g1. GenerateTemplate env (generateRequest env inp) g = (Inr gen, g1)
           \<and> u_name obj = stableName env (in_currentObjectRef inp) (in_namePrefix inp) g1
           \<and> obj = gen\<lparr>u_name := u_name obj\<rparr>"
  using assms
  by (auto simp: templateToObject_def Let_def stableName_def generateRequest_def
      split: prod.splits option.splits if_splits sum.splits)

lemma computeMachineDeployment_unknown_class:
  assumes "mapIndex (bp_MachineDeployments (sc_Blueprint s)) (mdt_Class t) = None"
  shows "computeMachineDeployment env s t g = (Inl (blueprintNotFound s (mdt_Class t)), g)"
  using assms by (simp add: computeMachineDeployment_def Let_def blueprintNotFound_def)

lemma computeMachineDeployment_complete:
  assumes "computeMachineDeployment env s t g = (Inr st, g')"
  shows "machineDeploymentStateComplete st"
  using computeMachineDeployment_success[OF assms]
  by (auto simp: machineDeploymentStateComplete_def)

lemma topologyLabels_update_other:
  assumes "topologyLabels env n (Some m)" and "k \<noteq> ClusterLabelName env"
    and "k \<noteq> ClusterTopologyOwnedLabel env"
  shows "topologyLabels env n (Some (DAList.update k v m))"
  using assms by (simp add: topologyLabels_def mapIndex_Some DAList.lookup_update)

lemma topologyLabels_fresh:
  assumes "ClusterLabelName env \<noteq> ClusterTopologyOwnedLabel env"
  shows "topologyLabels env n
           (Some (DAList.update (ClusterTopologyOwnedLabel env) []
                   (DAList.update (ClusterLabelName env) n m)))"
  using assms by (simp add: topologyLabels_def mapIndex_Some DAList.lookup_update)

lemma topologyLabels_Some:
  assumes "topologyLabels env n l"
  shows "topologyLabels env n (Some (case l of None \<Rightarrow> DAList.empty | Some m \<Rightarrow> m))"
  using assms by (cases l) (simp_all add: topologyLabels_def mapIndex_None)

lemma computeMachineDeployment_labelled:
  assumes run: "computeMachineDeployment env s t g = (Inr st, g')"
    and keys: "labelKeysDistinct env"
  shows "machineDeploymentStateLabelled env (currentClusterName s) st"
proof -
  from keys have d1: "ClusterLabelName env \<noteq> ClusterTopologyOwnedLabel env"
    and d2: "ClusterTopologyMachineDeploymentLabelName env \<noteq> ClusterLabelName env"
    and d3: "ClusterTopologyMachineDeploymentLabelName env \<noteq> ClusterTopologyOwnedLabel env"
    by (auto simp: labelKeysDistinct_def)
  show ?thesis
    using computeMachineDeployment_success[OF run] d2 d3
    by (auto simp: machineDeploymentStateLabelled_def currentClusterName_def
        intro!: topologyLabels_update_other topologyLabels_fresh[OF d1] topologyLabels_Some
        dest!: templateToTemplate_labels[OF _ d1])
qed

section \<open>The loop over the topology's entries\<close>

lemma machineDeploymentsLoop_append:
  "machineDeploymentsLoop env s (pre @ post) m g =
     (case machineDeploymentsLoop env s pre m g of
        (Inl err, g1) \<Rightarrow> (Inl err, g1)
      | (Inr m1, g1) \<Rightarrow> machineDeploymentsLoop env s post m1 g1)"
  by (induction pre arbitrary: m g) (auto split: prod.splits sum.splits)

lemma machineDeploymentsLoop_first_failure:
  assumes "machineDeploymentsLoop env s pre m g = (Inr m1, g1)"
    and "computeMachineDeployment env s mdTopology g1 = (Inl err, g2)"
  shows "machineDeploymentsLoop env s (pre @ mdTopology # post) m g = (Inl err, g2)"
  using assms by (simp add: machineDeploymentsLoop_append)

lemma machineDeploymentsLoop_keys:
  assumes "machineDeploymentsLoop env s mds m g = (Inr m', g')"
  shows "mapKeys (Some m') = mapKeys (Some m) \<union> mdt_Name ` set mds"
  using assms
proof (induction mds arbitrary: m g)
  case Nil
  then show ?case by simp
next
  case (Cons mdTopology rest)
  then show ?case
    by (auto simp: mapKeys_update split: prod.splits sum.splits)
qed

text \<open>An invariant of the loop: what holds of every computed state and of every entry
  the map had holds of every entry of the result.\<close>

lemma machineDeploymentsLoop_entries:
  assumes "machineDeploymentsLoop env s mds m g = (Inr m', g')"
    and "\<And>k st. DAList.lookup m k = Some st \<Longrightarrow> P st"
    and "\<And>t g st g'. computeMachineDeployment env s t g = (Inr st, g') \<Longrightarrow> P st"
    and "DAList.lookup m' k = Some st"
  shows "P st"
  using assms(1,2,4)
proof (induction mds arbitrary: m g)
  case Nil
  then show ?case by simp
next
  case (Cons mdTopology rest)
  from Cons.prems(1) obtain d g1 where
    c: "computeMachineDeployment env s mdTopology g = (Inr d, g1)"
    and r: "machineDeploymentsLoop env s rest (DAList.update (mdt_Name mdTopology) d m) g1
              = (Inr m', g')"
    by (auto split: prod.splits sum.splits)
  show ?case
  proof (rule Cons.IH[OF r _ Cons.prems(3)])
    fix k' st'
    assume "DAList.lookup (DAList.update (mdt_Name mdTopology) d m) k' = Some st'"
    then show "P st'"
      using assms(3)[OF c] Cons.prems(2)
      by (auto simp: DAList.lookup_update split: if_splits)
  qed
qed

text \<open>A class the blueprint lacks fails the loop, whatever the other entries are.\<close>

lemma machineDeploymentsLoop_unknown_class:
  assumes "mdTopology \<in> set mds"
    and "mapIndex (bp_MachineDeployments (sc_Blueprint s)) (mdt_Class mdTopology) = None"
  shows "\<exists>err. fst (machineDeploymentsLoop env s mds m g) = Inl err"
  using assms(1)
proof (induction mds arbitrary: m g)
  case Nil
  then show ?case by simp
next
  case (Cons a rest)
  show ?case
  proof (cases "computeMachineDeployment env s a g")
    case (Pair r g1)
    show ?thesis
    proof (cases r)
      case (Inl e)
      with Pair show ?thesis by simp
    next
      case (Inr d)
      with Pair computeMachineDeployment_unknown_class[OF assms(2), of env g]
      have "a \<noteq> mdTopology" by auto
      with Cons.prems have "mdTopology \<in> set rest" by simp
      from Cons.IH[OF this] Pair Inr show ?thesis by simp
    qed
  qed
qed

section \<open>The orchestrator: what a pass went through\<close>

lemma computeDesiredState_success:
  assumes "computeDesiredState env s g = (Inr d, g')"
  shows "\<exists>ic g1 imt g2 cp g3 c.
      computeInfrastructureCluster env s g = (Inr ic, g1)
    \<and> (if HasControlPlaneInfrastructureMachine (sc_Blueprint s)
        then \<exists>t. computeControlPlaneInfrastructureMachineTemplate env s g1 = (Inr t, g2)
                 \<and> imt = Some t
        else imt = None \<and> g2 = g1)
    \<and> computeControlPlane env s imt g2 = (Inr cp, g3)
    \<and> computeCluster env s ic cp = Inr c
    \<and> cs_Cluster d = Some c
    \<and> cs_InfrastructureCluster d = Some ic
    \<and> cs_ControlPlane d =
        Some \<lparr>cps_Object = Some cp, cps_InfrastructureMachineTemplate = imt\<rparr>
    \<and> (if HasMachineDeployments (sc_Blueprint s)
        then \<exists>m. machineDeploymentsLoop env s (topologyMachineDeployments s) DAList.empty g3
                    = (Inr m, g')
                 \<and> cs_MachineDeployments d = Some m
        else cs_MachineDeployments d = None \<and> g' = g3)"
  using assms
  by (auto simp: computeDesiredState_def Let_def topologyMachineDeployments_def
      split: prod.splits sum.splits if_splits option.splits)

lemma topologyMachineDeployments_none:
  assumes "\<not> HasMachineDeployments (sc_Blueprint s)"
  shows "topologyMachineDeployments s = []"
  using assms
  by (auto simp: HasMachineDeployments_def topologyMachineDeployments_def split: option.splits)

lemma computeDesiredState_infrastructureCluster_fails:
  assumes "computeInfrastructureCluster env s g = (Inl err, g1)"
  shows "computeDesiredState env s g = (Inl err, g1)"
  using assms by (simp add: computeDesiredState_def Let_def)

lemma computeDesiredState_infrastructureMachineTemplate_fails:
  assumes "computeInfrastructureCluster env s g = (Inr ic, g1)"
    and "HasControlPlaneInfrastructureMachine (sc_Blueprint s)"
    and "computeControlPlaneInfrastructureMachineTemplate env s g1 = (Inl err, g2)"
  shows "computeDesiredState env s g = (Inl err, g2)"
  using assms by (simp add: computeDesiredState_def Let_def)

lemma computeDesiredState_controlPlane_fails:
  assumes "computeInfrastructureCluster env s g = (Inr ic, g1)"
    and "if HasControlPlaneInfrastructureMachine (sc_Blueprint s)
         then \<exists>t. computeControlPlaneInfrastructureMachineTemplate env s g1 = (Inr t, g2)
                 \<and> imt = Some t
         else imt = None \<and> g2 = g1"
    and "computeControlPlane env s imt g2 = (Inl err, g3)"
  shows "computeDesiredState env s g = (Inl err, g3)"
  using assms by (auto simp: computeDesiredState_def Let_def split: if_splits)

lemma computeDesiredState_machineDeployments:
  assumes "computeInfrastructureCluster env s g = (Inr ic, g1)"
    and "if HasControlPlaneInfrastructureMachine (sc_Blueprint s)
         then \<exists>t. computeControlPlaneInfrastructureMachineTemplate env s g1 = (Inr t, g2)
                 \<and> imt = Some t
         else imt = None \<and> g2 = g1"
    and "computeControlPlane env s imt g2 = (Inr cp, g3)"
    and "computeCluster env s ic cp = Inr c"
    and "topologyMachineDeployments s \<noteq> []"
  shows "computeDesiredState env s g =
     (case machineDeploymentsLoop env s (topologyMachineDeployments s) DAList.empty g3 of
        (Inl err, g4) \<Rightarrow> (Inl err, g4)
      | (Inr m, g4) \<Rightarrow>
          (Inr \<lparr>cs_Cluster = Some c, cs_InfrastructureCluster = Some ic,
                cs_ControlPlane =
                  Some \<lparr>cps_Object = Some cp, cps_InfrastructureMachineTemplate = imt\<rparr>,
                cs_MachineDeployments = Some m\<rparr>, g4))"
  using assms
  by (auto simp: computeDesiredState_def Let_def topologyMachineDeployments_def
      HasMachineDeployments_def split: if_splits option.splits prod.splits sum.splits)

lemma computeDesiredState_fullyPopulated:
  assumes "computeDesiredState env s g = (Inr d, g')"
  shows "fullyPopulated s d"
proof -
  from computeDesiredState_success[OF assms]
  have parts: "cs_Cluster d \<noteq> None" "cs_InfrastructureCluster d \<noteq> None"
    "\<exists>cp imt. cs_ControlPlane d =
        Some \<lparr>cps_Object = Some cp, cps_InfrastructureMachineTemplate = imt\<rparr>
      \<and> (HasControlPlaneInfrastructureMachine (sc_Blueprint s) \<longrightarrow> imt \<noteq> None)"
    and mds: "if HasMachineDeployments (sc_Blueprint s)
        then \<exists>m g3. machineDeploymentsLoop env s (topologyMachineDeployments s) DAList.empty g3
                    = (Inr m, g')
                 \<and> cs_MachineDeployments d = Some m
        else cs_MachineDeployments d = None"
    by (auto split: if_splits)
  have "case mapIndex (cs_MachineDeployments d) (mdt_Name mdTopology) of
          None \<Rightarrow> False
        | Some st \<Rightarrow> machineDeploymentStateComplete st"
    if mem: "mdTopology \<in> set (topologyMachineDeployments s)" for mdTopology
  proof (cases "HasMachineDeployments (sc_Blueprint s)")
    case False
    with mem show ?thesis by (simp add: topologyMachineDeployments_none)
  next
    case True
    with mds obtain m g3 where
      loop: "machineDeploymentsLoop env s (topologyMachineDeployments s) DAList.empty g3
               = (Inr m, g')"
      and dm: "cs_MachineDeployments d = Some m" by auto
    from machineDeploymentsLoop_keys[OF loop] mem
    have "mdt_Name mdTopology \<in> mapKeys (Some m)" by auto
    then obtain st where st: "DAList.lookup m (mdt_Name mdTopology) = Some st"
      by (auto simp: mapKeys_dom mapIndex_Some)
    have "machineDeploymentStateComplete st"
      by (rule machineDeploymentsLoop_entries[OF loop _ _ st])
        (simp_all add: computeMachineDeployment_complete)
    with st dm show ?thesis by (simp add: mapIndex_Some)
  qed
  with parts show ?thesis by (auto simp: fullyPopulated_def)
qed

section \<open>computeControlPlane\<close>

lemma sint_scast_32_64: "sint (scast (r :: 32 word) :: 64 word) = sint r"
  by (simp add: sint_up_scast is_up)

lemma computeControlPlane_success:
  assumes "computeControlPlane env s imt g = (Inr cp, g')"
  shows "\<exists>cluster generated.
      cs_Cluster (sc_Current s) = Some cluster
    \<and> templateToObject env
         \<lparr>in_template = Some (cpb_Template (bp_ControlPlane (sc_Blueprint s))),
          in_templateClonedFromRef = cpc_Ref (cc_ControlPlane (bp_ClusterClass (sc_Blueprint s))),
          in_cluster = cluster,
          in_namePrefix = cl_Name cluster @ ''-'',
          in_currentObjectRef = cl_ControlPlaneRef cluster\<rparr> g = (Inr generated, g')
    \<and> (case cpt_Replicas (top_ControlPlane (bp_Topology (sc_Blueprint s))) of
          None \<Rightarrow> u_replicas cp = u_replicas generated
        | Some replicas \<Rightarrow> u_replicas cp = Some (scast replicas))
    \<and> u_version cp = Some (top_Version (bp_Topology (sc_Blueprint s)))
    \<and> u_name cp = u_name generated \<and> u_labels cp = u_labels generated"
  using assms
  by (auto simp: computeControlPlane_def Let_def InfrastructureRefSet_def MetadataSet_def
      VersionSet_def ReplicasSet_def
      split: prod.splits sum.splits if_splits option.splits)

section \<open>Labels of the computed objects\<close>

lemma computeCluster_labelled:
  assumes "computeCluster env s ic cp = Inr c"
    and "ClusterLabelName env \<noteq> ClusterTopologyOwnedLabel env"
  shows "cl_Name c = currentClusterName s
         \<and> topologyLabels env (currentClusterName s) (cl_Labels c)"
  using assms
  by (auto simp: computeCluster_def Let_def currentClusterName_def topologyLabels_def
      mapIndex_Some DAList.lookup_update split: option.splits)

lemma computeControlPlaneInfrastructureMachineTemplate_labelled:
  assumes "computeControlPlaneInfrastructureMachineTemplate env s g = (Inr t, g')"
    and "ClusterLabelName env \<noteq> ClusterTopologyOwnedLabel env"
  shows "topologyLabels env (currentClusterName s) (u_labels t)"
  using assms
  by (auto simp: computeControlPlaneInfrastructureMachineTemplate_def Let_def
      currentClusterName_def
      dest!: templateToTemplate_labels[OF _ assms(2)]
      split: option.splits sum.splits)

lemma templateToObject_labels:
  assumes "templateToObject env inp g = (Inr obj, g')"
    and "ClusterLabelName env \<noteq> ClusterTopologyOwnedLabel env"
  shows "\<exists>gen g1. GenerateTemplate env (generateRequest env inp) g = (Inr gen, g1)
           \<and> topologyLabels env (cl_Name (in_cluster inp))
                (gti_Labels (generateRequest env inp))
           \<and> u_labels obj = u_labels gen"
  using assms
  by (auto simp: templateToObject_def Let_def generateRequest_def topologyLabels_def
      mapIndex_Some DAList.lookup_update
      split: prod.splits option.splits if_splits sum.splits)

lemma rangeEntries_lookup:
  assumes "(k, v) \<in> set (rangeEntries (Some m))"
  shows "DAList.lookup m k = Some v"
  using assms by (simp add: rangeEntries_def DAList.lookup.rep_eq)

lemma computeDesiredState_labelled:
  assumes run: "computeDesiredState env s g = (Inr d, g')"
    and keys: "labelKeysDistinct env"
  shows "stateLabelled env (currentClusterName s) d"
proof -
  from keys have d1: "ClusterLabelName env \<noteq> ClusterTopologyOwnedLabel env"
    by (auto simp: labelKeysDistinct_def)
  from computeDesiredState_success[OF run]
  have c: "case cs_Cluster d of
         None \<Rightarrow> True
       | Some c \<Rightarrow> cl_Name c = currentClusterName s
                   \<and> topologyLabels env (currentClusterName s) (cl_Labels c)"
    by (auto dest!: computeCluster_labelled[OF _ d1])
  from computeDesiredState_success[OF run]
  have t: "case cs_ControlPlane d of
            None \<Rightarrow> True
          | Some cp \<Rightarrow>
              (case cps_InfrastructureMachineTemplate cp of
                 None \<Rightarrow> True
               | Some t \<Rightarrow> topologyLabels env (currentClusterName s) (u_labels t))"
    by (auto dest!: computeControlPlaneInfrastructureMachineTemplate_labelled[OF _ d1]
        split: if_splits)
  have "machineDeploymentStateLabelled env (currentClusterName s) st"
    if mem: "(k, st) \<in> set (rangeEntries (cs_MachineDeployments d))" for k st
  proof (cases "HasMachineDeployments (sc_Blueprint s)")
    case False
    with computeDesiredState_success[OF run] have "cs_MachineDeployments d = None" by auto
    with mem show ?thesis by (simp add: rangeEntries_def)
  next
    case True
    with computeDesiredState_success[OF run] obtain m g3 where
      loop: "machineDeploymentsLoop env s (topologyMachineDeployments s) DAList.empty g3
               = (Inr m, g')"
      and dm: "cs_MachineDeployments d = Some m" by auto
    from mem dm have st: "DAList.lookup m k = Some st" by (simp add: rangeEntries_lookup)
    show ?thesis
      by (rule machineDeploymentsLoop_entries[OF loop _ _ st])
        (simp_all add: computeMachineDeployment_labelled[OF _ keys])
  qed
  with c t show ?thesis by (auto simp: stateLabelled_def)
qed

text \<open>
  C3.  The three label keys are different constants.  Then every cloned template
  (\<open>templateToTemplate\<close>), the cluster object (\<open>computeCluster\<close>), the templates and the
  object of every machine deployment (\<open>computeMachineDeployment\<close>) and so every such
  object of the desired state of a successful pass carries the cluster-identity
  label with the cluster's name and the topology-ownership label with the empty
  string; and these objects are all there, the state being fully populated.  For an object made by the template generator (\<open>templateToObject\<close>) the
  request handed to the generator carries both labels, and the object keeps the
  labels the generator gave it.
\<close>

theorem computed_objects_carry_topology_labels:
  assumes "labelKeysDistinct env"
  shows "(templateToTemplate env inp g = (Inr t, g1)
            \<longrightarrow> topologyLabels env (cl_Name (in_cluster inp)) (u_labels t))
       \<and> (computeCluster env s ic cp = Inr c
            \<longrightarrow> cl_Name c = currentClusterName s
                \<and> topologyLabels env (currentClusterName s) (cl_Labels c))
       \<and> (computeMachineDeployment env s mdTopology g = (Inr st, g2)
            \<longrightarrow> machineDeploymentStateComplete st
                \<and> machineDeploymentStateLabelled env (currentClusterName s) st)
       \<and> (computeDesiredState env s g = (Inr d, g3)
            \<longrightarrow> fullyPopulated s d \<and> stateLabelled env (currentClusterName s) d)
       \<and> (templateToObject env inp g = (Inr obj, g4)
            \<longrightarrow> (\<exists>gen g5. GenerateTemplate env (generateRequest env inp) g = (Inr gen, g5)
                   \<and> topologyLabels env (cl_Name (in_cluster inp))
                        (gti_Labels (generateRequest env inp))
                   \<and> u_labels obj = u_labels gen))"
proof -
  from assms have d1: "ClusterLabelName env \<noteq> ClusterTopologyOwnedLabel env"
    by (auto simp: labelKeysDistinct_def)
  show ?thesis
    using templateToTemplate_labels[OF _ d1, of inp g t g1]
      computeCluster_labelled[OF _ d1, of s ic cp c]
      computeMachineDeployment_labelled[OF _ assms, of s mdTopology g st g2]
      computeMachineDeployment_complete[of env s mdTopology g st g2]
      computeDesiredState_labelled[OF _ assms, of s g d g3]
      computeDesiredState_fullyPopulated[of env s g d g3]
      templateToObject_labels[OF _ d1, of inp g obj g4]
    by blast
qed

lemma exampleScope_run:
  "\<exists>d. computeDesiredState exampleEnv exampleScope 0 = (Inr d, 6)"
  by (simp add: model_defs example_defs eval_defs)

theorem computed_objects_carry_topology_labels_witness:
  "labelKeysDistinct exampleEnv
   \<and> currentClusterName exampleScope = ''c1''
   \<and> (\<exists>d. computeDesiredState exampleEnv exampleScope 0 = (Inr d, 6)
          \<and> stateLabelled exampleEnv ''c1'' d)"
proof -
  have k: "labelKeysDistinct exampleEnv"
    by (simp add: labelKeysDistinct_def exampleEnv_def)
  have n: "currentClusterName exampleScope = ''c1''"
    by (simp add: currentClusterName_def exampleScope_def exampleCluster_def)
  from exampleScope_run obtain d where
    d: "computeDesiredState exampleEnv exampleScope 0 = (Inr d, 6)" by blast
  from computed_objects_carry_topology_labels [OF k, of _ 0 _ _ exampleScope _ _ _ _ _ _ d 6] d n
  have "stateLabelled exampleEnv ''c1'' d" by simp
  with k n d show ?thesis by blast
qed

section \<open>The desired state is whole or absent\<close>

text \<open>
  C2.  Whenever \<open>computeDesiredState\<close> succeeds, the keys of the
  \<open>MachineDeployments\<close> map of the desired state are exactly the names of the
  machine-deployment entries of the topology, whatever the current state holds.
\<close>

theorem computeDesiredState_machineDeployment_keys:
  assumes "computeDesiredState env s g = (Inr d, g')"
  shows "machineDeploymentKeys d = mdt_Name ` set (topologyMachineDeployments s)"
proof (cases "HasMachineDeployments (sc_Blueprint s)")
  case False
  with computeDesiredState_success[OF assms] have "cs_MachineDeployments d = None" by auto
  then show ?thesis
    using False by (simp add: machineDeploymentKeys_def mapKeys_None topologyMachineDeployments_none)
next
  case True
  with computeDesiredState_success[OF assms] obtain m g3 where
    loop: "machineDeploymentsLoop env s (topologyMachineDeployments s) DAList.empty g3
             = (Inr m, g')"
    and dm: "cs_MachineDeployments d = Some m" by auto
  from machineDeploymentsLoop_keys[OF loop] dm show ?thesis
    by (simp add: machineDeploymentKeys_def mapKeys_empty)
qed

theorem computeDesiredState_machineDeployment_keys_witness:
  "\<exists>d. computeDesiredState exampleEnv exampleScope 0 = (Inr d, 6)
      \<and> machineDeploymentKeys d = {''pool1''}"
proof -
  from exampleScope_run obtain d where
    d: "computeDesiredState exampleEnv exampleScope 0 = (Inr d, 6)" by blast
  from computeDesiredState_machineDeployment_keys [OF d]
  have "machineDeploymentKeys d = {''pool1''}"
    by (simp add: topologyMachineDeployments_def exampleScope_def exampleBlueprint_def
        examplePool_def)
  with d show ?thesis by blast
qed

text \<open>
  C1.  The result of \<open>computeDesiredState\<close> is an error with no desired state, or a
  desired state that is fully populated for the scope.  The first component that
  fails decides the result: the error of the infrastructure cluster, of the
  control plane's infrastructure-machine template (when the blueprint asks for
  one), of the control plane, or of the first machine deployment that fails, is the
  error of the whole call, and no desired state is returned.  (A nil dereference
  counts as a failure: it too leaves no desired state.)
\<close>

theorem computeDesiredState_all_or_nothing:
  "(case fst (computeDesiredState env s g) of
      Inl err \<Rightarrow> True
    | Inr d \<Rightarrow> fullyPopulated s d)
   \<and> (computeInfrastructureCluster env s g = (Inl err, ga)
        \<longrightarrow> computeDesiredState env s g = (Inl err, ga))
   \<and> (computeInfrastructureCluster env s g = (Inr ic, ga)
        \<and> HasControlPlaneInfrastructureMachine (sc_Blueprint s)
        \<and> computeControlPlaneInfrastructureMachineTemplate env s ga = (Inl err, gb)
        \<longrightarrow> computeDesiredState env s g = (Inl err, gb))
   \<and> (computeInfrastructureCluster env s g = (Inr ic, ga)
        \<and> (if HasControlPlaneInfrastructureMachine (sc_Blueprint s)
            then \<exists>t. computeControlPlaneInfrastructureMachineTemplate env s ga = (Inr t, gb)
                     \<and> imt = Some t
            else imt = None \<and> gb = ga)
        \<and> computeControlPlane env s imt gb = (Inl err, gc)
        \<longrightarrow> computeDesiredState env s g = (Inl err, gc))
   \<and> (computeInfrastructureCluster env s g = (Inr ic, ga)
        \<and> (if HasControlPlaneInfrastructureMachine (sc_Blueprint s)
            then \<exists>t. computeControlPlaneInfrastructureMachineTemplate env s ga = (Inr t, gb)
                     \<and> imt = Some t
            else imt = None \<and> gb = ga)
        \<and> computeControlPlane env s imt gb = (Inr cp, gc)
        \<and> computeCluster env s ic cp = Inr c
        \<and> topologyMachineDeployments s = pre @ mdTopology # post
        \<and> machineDeploymentsLoop env s pre DAList.empty gc = (Inr m, gd)
        \<and> computeMachineDeployment env s mdTopology gd = (Inl err, ge)
        \<longrightarrow> computeDesiredState env s g = (Inl err, ge))"
proof (intro conjI impI)
  show "case fst (computeDesiredState env s g) of
      Inl err \<Rightarrow> True
    | Inr d \<Rightarrow> fullyPopulated s d"
  proof (cases "computeDesiredState env s g")
    case (Pair r g')
    then show ?thesis
      by (cases r) (simp_all add: computeDesiredState_fullyPopulated)
  qed
next
  assume "computeInfrastructureCluster env s g = (Inl err, ga)"
  then show "computeDesiredState env s g = (Inl err, ga)"
    by (rule computeDesiredState_infrastructureCluster_fails)
next
  assume "computeInfrastructureCluster env s g = (Inr ic, ga)
        \<and> HasControlPlaneInfrastructureMachine (sc_Blueprint s)
        \<and> computeControlPlaneInfrastructureMachineTemplate env s ga = (Inl err, gb)"
  then have "computeInfrastructureCluster env s g = (Inr ic, ga)"
    and "HasControlPlaneInfrastructureMachine (sc_Blueprint s)"
    and "computeControlPlaneInfrastructureMachineTemplate env s ga = (Inl err, gb)"
    by simp_all
  then show "computeDesiredState env s g = (Inl err, gb)"
    by (rule computeDesiredState_infrastructureMachineTemplate_fails)
next
  assume "computeInfrastructureCluster env s g = (Inr ic, ga)
        \<and> (if HasControlPlaneInfrastructureMachine (sc_Blueprint s)
            then \<exists>t. computeControlPlaneInfrastructureMachineTemplate env s ga = (Inr t, gb)
                     \<and> imt = Some t
            else imt = None \<and> gb = ga)
        \<and> computeControlPlane env s imt gb = (Inl err, gc)"
  then have "computeInfrastructureCluster env s g = (Inr ic, ga)"
    and "if HasControlPlaneInfrastructureMachine (sc_Blueprint s)
            then \<exists>t. computeControlPlaneInfrastructureMachineTemplate env s ga = (Inr t, gb)
                     \<and> imt = Some t
            else imt = None \<and> gb = ga"
    and "computeControlPlane env s imt gb = (Inl err, gc)"
    by simp_all
  then show "computeDesiredState env s g = (Inl err, gc)"
    by (rule computeDesiredState_controlPlane_fails)
next
  assume a: "computeInfrastructureCluster env s g = (Inr ic, ga)
        \<and> (if HasControlPlaneInfrastructureMachine (sc_Blueprint s)
            then \<exists>t. computeControlPlaneInfrastructureMachineTemplate env s ga = (Inr t, gb)
                     \<and> imt = Some t
            else imt = None \<and> gb = ga)
        \<and> computeControlPlane env s imt gb = (Inr cp, gc)
        \<and> computeCluster env s ic cp = Inr c
        \<and> topologyMachineDeployments s = pre @ mdTopology # post
        \<and> machineDeploymentsLoop env s pre DAList.empty gc = (Inr m, gd)
        \<and> computeMachineDeployment env s mdTopology gd = (Inl err, ge)"
  then have ne: "topologyMachineDeployments s \<noteq> []" by auto
  from a have "machineDeploymentsLoop env s (topologyMachineDeployments s) DAList.empty gc
      = (Inl err, ge)"
    by (simp add: machineDeploymentsLoop_first_failure)
  with a computeDesiredState_machineDeployments[of env s g ic ga gb imt cp gc c, OF _ _ _ _ ne]
  show "computeDesiredState env s g = (Inl err, ge)" by simp
qed

lemma ghostScope_stages:
  "\<exists>ic t cp c m.
      computeInfrastructureCluster exampleEnv ghostScope 0 = (Inr ic, 1)
    \<and> HasControlPlaneInfrastructureMachine (sc_Blueprint ghostScope)
    \<and> computeControlPlaneInfrastructureMachineTemplate exampleEnv ghostScope 1 = (Inr t, 2)
    \<and> computeControlPlane exampleEnv ghostScope (Some t) 2 = (Inr cp, 3)
    \<and> computeCluster exampleEnv ghostScope ic cp = Inr c
    \<and> topologyMachineDeployments ghostScope = [examplePool] @ ghostPool # []
    \<and> machineDeploymentsLoop exampleEnv ghostScope [examplePool] DAList.empty 3 = (Inr m, 6)
    \<and> computeMachineDeployment exampleEnv ghostScope ghostPool 6
        = (Inl (Errorf ''MachineDeployment blueprint ghost not found in ClusterClass class1''), 6)"
  by (simp add: model_defs example_defs eval_defs topologyMachineDeployments_def)

theorem computeDesiredState_all_or_nothing_witness:
  "(\<exists>d. fst (computeDesiredState exampleEnv exampleScope 0) = Inr d
        \<and> fullyPopulated exampleScope d)
   \<and> computeDesiredState exampleEnv invalidInfrastructureScope 0 =
       (Inl (Wrap (Errorf ''missing spec.template'')
          ''failed to generate the InfrastructureCluster object from the InfraClusterTemplate''),
        0)
   \<and> computeDesiredState exampleEnv unreadableControlPlaneScope 0 =
       (Inl (Wrap (PathNotExposed SpecMachineTemplateInfrastructureRef)
          ''failed to get spec.machineTemplate.infrastructureRef for the current ControlPlane object''),
        1)
   \<and> computeDesiredState exampleEnv opaqueControlPlaneScope 0 =
       (Inl (Wrap (PathNotExposed SpecMachineTemplateInfrastructureRef)
          ''failed to spec.machineTemplate.infrastructureRef in the ControlPlane object''),
        3)
   \<and> computeDesiredState exampleEnv ghostScope 0 =
       (Inl (Errorf ''MachineDeployment blueprint ghost not found in ClusterClass class1''), 6)"
proof (intro conjI)
  from exampleScope_run obtain d where
    d: "computeDesiredState exampleEnv exampleScope 0 = (Inr d, 6)" by blast
  with computeDesiredState_all_or_nothing [where env = exampleEnv and s = exampleScope
      and g = 0]
  show "\<exists>d. fst (computeDesiredState exampleEnv exampleScope 0) = Inr d
        \<and> fullyPopulated exampleScope d" by simp
next
  have "computeInfrastructureCluster exampleEnv invalidInfrastructureScope 0 =
       (Inl (Wrap (Errorf ''missing spec.template'')
          ''failed to generate the InfrastructureCluster object from the InfraClusterTemplate''),
        0)"
    by (simp add: model_defs example_defs eval_defs)
  with computeDesiredState_all_or_nothing [where env = exampleEnv
      and s = invalidInfrastructureScope and g = 0 and ga = 0]
  show "computeDesiredState exampleEnv invalidInfrastructureScope 0 =
       (Inl (Wrap (Errorf ''missing spec.template'')
          ''failed to generate the InfrastructureCluster object from the InfraClusterTemplate''),
        0)" by blast
next
  have "\<exists>ic. computeInfrastructureCluster exampleEnv unreadableControlPlaneScope 0 = (Inr ic, 1)
        \<and> HasControlPlaneInfrastructureMachine (sc_Blueprint unreadableControlPlaneScope)
        \<and> computeControlPlaneInfrastructureMachineTemplate exampleEnv
             unreadableControlPlaneScope 1 =
       (Inl (Wrap (PathNotExposed SpecMachineTemplateInfrastructureRef)
          ''failed to get spec.machineTemplate.infrastructureRef for the current ControlPlane object''),
        1)"
    by (simp add: model_defs example_defs eval_defs)
  with computeDesiredState_all_or_nothing [where env = exampleEnv
      and s = unreadableControlPlaneScope and g = 0 and ga = 1 and gb = 1]
  show "computeDesiredState exampleEnv unreadableControlPlaneScope 0 =
       (Inl (Wrap (PathNotExposed SpecMachineTemplateInfrastructureRef)
          ''failed to get spec.machineTemplate.infrastructureRef for the current ControlPlane object''),
        1)" by blast
next
  have "\<exists>ic t. computeInfrastructureCluster exampleEnv opaqueControlPlaneScope 0 = (Inr ic, 1)
        \<and> HasControlPlaneInfrastructureMachine (sc_Blueprint opaqueControlPlaneScope)
        \<and> computeControlPlaneInfrastructureMachineTemplate exampleEnv
             opaqueControlPlaneScope 1 = (Inr t, 2)
        \<and> computeControlPlane exampleEnv opaqueControlPlaneScope (Some t) 2 =
       (Inl (Wrap (PathNotExposed SpecMachineTemplateInfrastructureRef)
          ''failed to spec.machineTemplate.infrastructureRef in the ControlPlane object''),
        3)"
    by (simp add: model_defs example_defs eval_defs)
  then obtain ic t where st:
    "computeInfrastructureCluster exampleEnv opaqueControlPlaneScope 0 = (Inr ic, 1)"
    "HasControlPlaneInfrastructureMachine (sc_Blueprint opaqueControlPlaneScope)"
    "computeControlPlaneInfrastructureMachineTemplate exampleEnv
             opaqueControlPlaneScope 1 = (Inr t, 2)"
    "computeControlPlane exampleEnv opaqueControlPlaneScope (Some t) 2 =
       (Inl (Wrap (PathNotExposed SpecMachineTemplateInfrastructureRef)
          ''failed to spec.machineTemplate.infrastructureRef in the ControlPlane object''),
        3)" by blast
  with computeDesiredState_all_or_nothing [where env = exampleEnv
      and s = opaqueControlPlaneScope and g = 0 and ga = 1 and gb = 2 and gc = 3
      and ic = ic and imt = "Some t"]
  show "computeDesiredState exampleEnv opaqueControlPlaneScope 0 =
       (Inl (Wrap (PathNotExposed SpecMachineTemplateInfrastructureRef)
          ''failed to spec.machineTemplate.infrastructureRef in the ControlPlane object''),
        3)" by simp
next
  from ghostScope_stages obtain ic t cp c m where st:
      "computeInfrastructureCluster exampleEnv ghostScope 0 = (Inr ic, 1)"
      "HasControlPlaneInfrastructureMachine (sc_Blueprint ghostScope)"
      "computeControlPlaneInfrastructureMachineTemplate exampleEnv ghostScope 1 = (Inr t, 2)"
      "computeControlPlane exampleEnv ghostScope (Some t) 2 = (Inr cp, 3)"
      "computeCluster exampleEnv ghostScope ic cp = Inr c"
      "topologyMachineDeployments ghostScope = [examplePool] @ ghostPool # []"
      "machineDeploymentsLoop exampleEnv ghostScope [examplePool] DAList.empty 3 = (Inr m, 6)"
      "computeMachineDeployment exampleEnv ghostScope ghostPool 6
        = (Inl (Errorf ''MachineDeployment blueprint ghost not found in ClusterClass class1''), 6)"
    by blast
  with computeDesiredState_all_or_nothing [where env = exampleEnv
      and s = ghostScope and g = 0 and ga = 1 and gb = 2 and gc = 3 and gd = 6 and ge = 6
      and ic = ic and imt = "Some t" and cp = cp and c = c and pre = "[examplePool]"
      and mdTopology = ghostPool and post = "[]" and m = m]
  show "computeDesiredState exampleEnv ghostScope 0 =
       (Inl (Errorf ''MachineDeployment blueprint ghost not found in ClusterClass class1''), 6)"
    by simp
qed

section \<open>A class the blueprint does not have\<close>

text \<open>
  C5, amended.  When the topology has an entry whose class is not in the blueprint's
  machine-deployment class map, \<open>computeDesiredState\<close> returns an error and no desired
  state, whatever the other entries are; \<open>computeMachineDeployment\<close> fails on that
  entry with the error that names the class; and that error is the error of the
  pass when everything before the entry succeeded: the infrastructure cluster, the
  control plane with its template, the cluster and the entries before it.
\<close>

theorem unknown_class_fails_pass:
  assumes "mdTopology \<in> set (topologyMachineDeployments s)"
    and "mapIndex (bp_MachineDeployments (sc_Blueprint s)) (mdt_Class mdTopology) = None"
  shows "(\<exists>err. fst (computeDesiredState env s g) = Inl err)
       \<and> computeMachineDeployment env s mdTopology gd
           = (Inl (blueprintNotFound s (mdt_Class mdTopology)), gd)
       \<and> (computeInfrastructureCluster env s g = (Inr ic, ga)
            \<and> (if HasControlPlaneInfrastructureMachine (sc_Blueprint s)
                then \<exists>t. computeControlPlaneInfrastructureMachineTemplate env s ga = (Inr t, gb)
                         \<and> imt = Some t
                else imt = None \<and> gb = ga)
            \<and> computeControlPlane env s imt gb = (Inr cp, gc)
            \<and> computeCluster env s ic cp = Inr c
            \<and> topologyMachineDeployments s = pre @ mdTopology # post
            \<and> machineDeploymentsLoop env s pre DAList.empty gc = (Inr m, gd)
            \<longrightarrow> computeDesiredState env s g
                  = (Inl (blueprintNotFound s (mdt_Class mdTopology)), gd))"
proof (intro conjI impI)
  show "\<exists>err. fst (computeDesiredState env s g) = Inl err"
  proof (cases "computeDesiredState env s g")
    case (Pair r g')
    show ?thesis
    proof (cases r)
      case (Inl e)
      with Pair show ?thesis by simp
    next
      case (Inr d)
      have has: "HasMachineDeployments (sc_Blueprint s)"
      proof (rule ccontr)
        assume "\<not> HasMachineDeployments (sc_Blueprint s)"
        from topologyMachineDeployments_none[OF this] assms(1) show False by simp
      qed
      from computeDesiredState_success[of env s g d g'] Pair Inr has
      obtain m gc where
        "machineDeploymentsLoop env s (topologyMachineDeployments s) DAList.empty gc
           = (Inr m, g')" by auto
      with machineDeploymentsLoop_unknown_class[OF assms, of env DAList.empty gc]
      show ?thesis by simp
    qed
  qed
next
  show fails: "computeMachineDeployment env s mdTopology gd
           = (Inl (blueprintNotFound s (mdt_Class mdTopology)), gd)" for gd
    by (rule computeMachineDeployment_unknown_class[OF assms(2)])
  assume a: "computeInfrastructureCluster env s g = (Inr ic, ga)
            \<and> (if HasControlPlaneInfrastructureMachine (sc_Blueprint s)
                then \<exists>t. computeControlPlaneInfrastructureMachineTemplate env s ga = (Inr t, gb)
                         \<and> imt = Some t
                else imt = None \<and> gb = ga)
            \<and> computeControlPlane env s imt gb = (Inr cp, gc)
            \<and> computeCluster env s ic cp = Inr c
            \<and> topologyMachineDeployments s = pre @ mdTopology # post
            \<and> machineDeploymentsLoop env s pre DAList.empty gc = (Inr m, gd)"
  then have ne: "topologyMachineDeployments s \<noteq> []" by auto
  from a fails[of gd]
  have "machineDeploymentsLoop env s (topologyMachineDeployments s) DAList.empty gc
      = (Inl (blueprintNotFound s (mdt_Class mdTopology)), gd)"
    by (simp add: machineDeploymentsLoop_first_failure)
  with a computeDesiredState_machineDeployments[of env s g ic ga gb imt cp gc c, OF _ _ _ _ ne]
  show "computeDesiredState env s g
                  = (Inl (blueprintNotFound s (mdt_Class mdTopology)), gd)" by simp
qed

theorem unknown_class_fails_pass_witness:
  "ghostPool \<in> set (topologyMachineDeployments ghostScope)
   \<and> examplePool \<in> set (topologyMachineDeployments ghostScope)
   \<and> mapIndex (bp_MachineDeployments (sc_Blueprint ghostScope)) (mdt_Class examplePool) \<noteq> None
   \<and> mapIndex (bp_MachineDeployments (sc_Blueprint ghostScope)) (mdt_Class ghostPool) = None
   \<and> computeDesiredState exampleEnv ghostScope 0 =
       (Inl (Errorf ''MachineDeployment blueprint ghost not found in ClusterClass class1''), 6)"
proof -
  have mem: "ghostPool \<in> set (topologyMachineDeployments ghostScope)"
    and mem': "examplePool \<in> set (topologyMachineDeployments ghostScope)"
    by (simp_all add: topologyMachineDeployments_def ghostScope_def ghostTopology_def)
  have known: "mapIndex (bp_MachineDeployments (sc_Blueprint ghostScope)) (mdt_Class examplePool)
      \<noteq> None"
    by (simp add: ghostScope_def exampleBlueprint_def examplePool_def mapIndex_def)
  have unknown: "mapIndex (bp_MachineDeployments (sc_Blueprint ghostScope)) (mdt_Class ghostPool)
      = None"
    by (simp add: ghostScope_def exampleBlueprint_def ghostPool_def mapIndex_def)
  have nf: "blueprintNotFound ghostScope (mdt_Class ghostPool)
      = Errorf ''MachineDeployment blueprint ghost not found in ClusterClass class1''"
    by (simp add: blueprintNotFound_def ghostScope_def exampleBlueprint_def ghostPool_def
        exampleScope_def)
  from ghostScope_stages obtain ic t cp c m where st:
      "computeInfrastructureCluster exampleEnv ghostScope 0 = (Inr ic, 1)"
      "HasControlPlaneInfrastructureMachine (sc_Blueprint ghostScope)"
      "computeControlPlaneInfrastructureMachineTemplate exampleEnv ghostScope 1 = (Inr t, 2)"
      "computeControlPlane exampleEnv ghostScope (Some t) 2 = (Inr cp, 3)"
      "computeCluster exampleEnv ghostScope ic cp = Inr c"
      "topologyMachineDeployments ghostScope = [examplePool] @ ghostPool # []"
      "machineDeploymentsLoop exampleEnv ghostScope [examplePool] DAList.empty 3 = (Inr m, 6)"
    by blast
  with unknown_class_fails_pass [OF mem unknown, where env = exampleEnv
      and g = 0 and ga = 1 and gb = 2 and gc = 3 and gd = 6
      and ic = ic and imt = "Some t" and cp = cp and c = c and pre = "[examplePool]"
      and post = "[]" and m = m] nf
  have "computeDesiredState exampleEnv ghostScope 0 =
       (Inl (Errorf ''MachineDeployment blueprint ghost not found in ClusterClass class1''), 6)"
    by simp
  with mem mem' known unknown show ?thesis by blast
qed

text \<open>
  C5 as stated fails: with a class \<open>ghost\<close> that the blueprint does not have and an
  infrastructure-cluster template the generator rejects, the pass fails with the
  generator's error, which does not name the class.
\<close>

theorem unknown_class_fails_pass_counterexample:
  "ghostPool \<in> set (topologyMachineDeployments invalidInfrastructureGhostScope)
   \<and> mapIndex (bp_MachineDeployments (sc_Blueprint invalidInfrastructureGhostScope))
        (mdt_Class ghostPool) = None
   \<and> fst (computeDesiredState exampleEnv invalidInfrastructureGhostScope 0) =
       Inl (Wrap (Errorf ''missing spec.template'')
          ''failed to generate the InfrastructureCluster object from the InfraClusterTemplate'')
   \<and> fst (computeDesiredState exampleEnv invalidInfrastructureGhostScope 0)
       \<noteq> Inl (blueprintNotFound invalidInfrastructureGhostScope (mdt_Class ghostPool))"
  by (simp add: model_defs example_defs eval_defs topologyMachineDeployments_def
      blueprintNotFound_def)

section \<open>Names: reused or generated\<close>

text \<open>
  C4, amended.  \<open>templateToObject\<close> and \<open>templateToTemplate\<close> name their result by
  \<open>stableName\<close>: the name of the current reference when that is not nil and its name
  is not empty, otherwise the name the generator makes from the name prefix (for
  \<open>templateToObject\<close> in the generator state the template generator left).  The
  machine-deployment object takes the name of the current machine-deployment object
  whenever there is one, whatever that name is, and otherwise the name the generator
  makes from the prefix \<open><cluster>-<entry>-\<close>.
\<close>

theorem names_reused_or_generated:
  "(templateToObject env inp g = (Inr obj, ga)
      \<longrightarrow> u_name obj =
            stableName env (in_currentObjectRef inp) (in_namePrefix inp)
              (snd (GenerateTemplate env (generateRequest env inp) g)))
   \<and> (templateToTemplate env inp g = (Inr t, gb)
        \<longrightarrow> u_name t = stableName env (in_currentObjectRef inp) (in_namePrefix inp) g)
   \<and> (computeMachineDeployment env s mdTopology g = (Inr st, gc)
        \<longrightarrow> (\<exists>obj gd. mds_Object st = Some obj
               \<and> snd (GenerateName env
                        (currentClusterName s @ ''-'' @ mdt_Name mdTopology @ ''-'') gd) = gc
               \<and> md_Name obj =
                   (case currentMachineDeploymentObject s mdTopology of
                      Some cur \<Rightarrow> md_Name cur
                    | None \<Rightarrow>
                        fst (GenerateName env
                               (currentClusterName s @ ''-'' @ mdt_Name mdTopology @ ''-'')
                               gd))))"
proof (intro conjI impI)
  assume "templateToObject env inp g = (Inr obj, ga)"
  from templateToObject_name[OF this]
  show "u_name obj =
            stableName env (in_currentObjectRef inp) (in_namePrefix inp)
              (snd (GenerateTemplate env (generateRequest env inp) g))" by auto
next
  assume "templateToTemplate env inp g = (Inr t, gb)"
  then show "u_name t = stableName env (in_currentObjectRef inp) (in_namePrefix inp) g"
    by (rule templateToTemplate_name)
next
  assume "computeMachineDeployment env s mdTopology g = (Inr st, gc)"
  from computeMachineDeployment_success[OF this]
  obtain cluster gd generated obj where
    cl: "cs_Cluster (sc_Current s) = Some cluster"
    and gn: "GenerateName env (cl_Name cluster @ ''-'' @ mdt_Name mdTopology @ ''-'') gd
              = (generated, gc)"
    and ob: "mds_Object st = Some obj"
    and nm: "md_Name obj =
              (case currentMachineDeploymentObject s mdTopology of
                 Some cur \<Rightarrow> md_Name cur
               | None \<Rightarrow> generated)"
    by auto
  have "currentClusterName s = cl_Name cluster" by (simp add: currentClusterName_def cl)
  with gn ob nm
  show "\<exists>obj gd. mds_Object st = Some obj
               \<and> snd (GenerateName env
                        (currentClusterName s @ ''-'' @ mdt_Name mdTopology @ ''-'') gd) = gc
               \<and> md_Name obj =
                   (case currentMachineDeploymentObject s mdTopology of
                      Some cur \<Rightarrow> md_Name cur
                    | None \<Rightarrow>
                        fst (GenerateName env
                               (currentClusterName s @ ''-'' @ mdt_Name mdTopology @ ''-'')
                               gd))"
    by (intro exI[of _ obj] exI[of _ gd]) (simp split: option.splits)
qed

theorem names_reused_or_generated_witness:
  "(\<exists>obj ga. templateToObject exampleEnv exampleInput 0 = (Inr obj, ga)
       \<and> u_name obj = ''c1-foo-x'')
   \<and> (\<exists>obj ga. templateToObject exampleEnv reusingInput 0 = (Inr obj, ga)
       \<and> u_name obj = ''kept'')
   \<and> (\<exists>t gb. templateToTemplate exampleEnv exampleInput 0 = (Inr t, gb)
       \<and> u_name t = ''c1-foo-x'')
   \<and> (\<exists>t gb. templateToTemplate exampleEnv reusingInput 0 = (Inr t, gb)
       \<and> u_name t = ''kept'')
   \<and> (\<exists>st obj. computeMachineDeployment exampleEnv exampleScope examplePool 0 = (Inr st, 3)
       \<and> mds_Object st = Some obj \<and> md_Name obj = ''c1-pool1-xxx'')"
proof (intro conjI)
  have "\<exists>obj. templateToObject exampleEnv exampleInput 0 = (Inr obj, 1)"
    by (simp add: model_defs example_defs eval_defs)
  then obtain obj where r: "templateToObject exampleEnv exampleInput 0 = (Inr obj, 1)" by blast
  from names_reused_or_generated [where env = exampleEnv and inp = exampleInput and g = 0
      and obj = obj and ga = 1] r
  have "u_name obj = ''c1-foo-x''"
    by (simp add: stableName_def generateRequest_def example_defs)
  with r show "\<exists>obj ga. templateToObject exampleEnv exampleInput 0 = (Inr obj, ga)
       \<and> u_name obj = ''c1-foo-x''" by blast
next
  have "\<exists>obj. templateToObject exampleEnv reusingInput 0 = (Inr obj, 1)"
    by (simp add: model_defs example_defs eval_defs)
  then obtain obj where r: "templateToObject exampleEnv reusingInput 0 = (Inr obj, 1)" by blast
  from names_reused_or_generated [where env = exampleEnv and inp = reusingInput and g = 0
      and obj = obj and ga = 1] r
  have "u_name obj = ''kept''"
    by (simp add: stableName_def generateRequest_def example_defs)
  with r show "\<exists>obj ga. templateToObject exampleEnv reusingInput 0 = (Inr obj, ga)
       \<and> u_name obj = ''kept''" by blast
next
  have "\<exists>t. templateToTemplate exampleEnv exampleInput 0 = (Inr t, 1)"
    by (simp add: model_defs example_defs eval_defs)
  then obtain t where r: "templateToTemplate exampleEnv exampleInput 0 = (Inr t, 1)" by blast
  from names_reused_or_generated [where env = exampleEnv and inp = exampleInput and g = 0
      and t = t and gb = 1] r
  have "u_name t = ''c1-foo-x''"
    by (simp add: stableName_def example_defs)
  with r show "\<exists>t gb. templateToTemplate exampleEnv exampleInput 0 = (Inr t, gb)
       \<and> u_name t = ''c1-foo-x''" by blast
next
  have "\<exists>t. templateToTemplate exampleEnv reusingInput 0 = (Inr t, 1)"
    by (simp add: model_defs example_defs eval_defs)
  then obtain t where r: "templateToTemplate exampleEnv reusingInput 0 = (Inr t, 1)" by blast
  from names_reused_or_generated [where env = exampleEnv and inp = reusingInput and g = 0
      and t = t and gb = 1] r
  have "u_name t = ''kept''"
    by (simp add: stableName_def example_defs)
  with r show "\<exists>t gb. templateToTemplate exampleEnv reusingInput 0 = (Inr t, gb)
       \<and> u_name t = ''kept''" by blast
next
  have "\<exists>st. computeMachineDeployment exampleEnv exampleScope examplePool 0 = (Inr st, 3)"
    by (simp add: model_defs example_defs eval_defs)
  then obtain st where
    r: "computeMachineDeployment exampleEnv exampleScope examplePool 0 = (Inr st, 3)" by blast
  have cur: "currentMachineDeploymentObject exampleScope examplePool = None"
    by (simp add: currentMachineDeploymentObject_def exampleScope_def mapIndex_def)
  have n: "currentClusterName exampleScope = ''c1''"
    by (simp add: currentClusterName_def exampleScope_def exampleCluster_def)
  from names_reused_or_generated [where env = exampleEnv and s = exampleScope
      and mdTopology = examplePool and g = 0 and st = st and gc = 3,
      THEN conjunct2, THEN conjunct2, THEN mp, OF r]
  have "\<exists>obj gd. mds_Object st = Some obj
    \<and> snd (GenerateName exampleEnv
                (currentClusterName exampleScope @ ''-'' @ mdt_Name examplePool @ ''-'') gd) = 3
    \<and> md_Name obj =
           fst (GenerateName exampleEnv
                  (currentClusterName exampleScope @ ''-'' @ mdt_Name examplePool @ ''-'') gd)"
    by (simp add: cur)
  then obtain obj gd where "mds_Object st = Some obj"
    and "snd (GenerateName exampleEnv
                (currentClusterName exampleScope @ ''-'' @ mdt_Name examplePool @ ''-'') gd) = 3"
    and "md_Name obj =
           fst (GenerateName exampleEnv
                  (currentClusterName exampleScope @ ''-'' @ mdt_Name examplePool @ ''-'') gd)"
    by blast
  then have "mds_Object st = Some obj \<and> md_Name obj = ''c1-pool1-xxx''"
    by (auto simp: n exampleEnv_def examplePool_def numeral_3_eq_3)
  with r show "\<exists>st obj. computeMachineDeployment exampleEnv exampleScope examplePool 0 = (Inr st, 3)
       \<and> mds_Object st = Some obj \<and> md_Name obj = ''c1-pool1-xxx''" by blast
qed

text \<open>
  C4 as stated fails for the machine-deployment object: the current object of
  \<open>pool1\<close> has an empty name, so by the claim the name is generated from the prefix,
  but the computed object takes the empty name.
\<close>

theorem names_reused_or_generated_counterexample:
  "currentMachineDeploymentObject unnamedCurrentScope examplePool = Some unnamedMachineDeployment
   \<and> md_Name unnamedMachineDeployment = []
   \<and> (case fst (computeMachineDeployment exampleEnv unnamedCurrentScope examplePool 0) of
        Inl e \<Rightarrow> False
      | Inr st \<Rightarrow>
          (case mds_Object st of
             None \<Rightarrow> False
           | Some obj \<Rightarrow>
               md_Name obj = []
               \<and> md_Name obj \<noteq> fst (GenerateName exampleEnv ''c1-pool1-'' 2)))"
  by (simp add: model_defs example_defs eval_defs currentMachineDeploymentObject_def)

section \<open>The control plane's replicas and version\<close>

text \<open>
  C9.  Whenever \<open>computeControlPlane\<close> succeeds, the result comes from the object the
  template generator made, and: when the topology gives a replica count, the
  replicas field holds that count (the same number as a 64-bit integer); when it
  gives none, the replicas field is what it was in the generated object, not zero
  and not otherwise written; and the version field holds the topology's version in
  both cases.
\<close>

theorem computeControlPlane_replicas_iff_specified:
  assumes "computeControlPlane env s imt g = (Inr cp, g')"
  shows "\<exists>cluster generated.
      cs_Cluster (sc_Current s) = Some cluster
    \<and> templateToObject env
         \<lparr>in_template = Some (cpb_Template (bp_ControlPlane (sc_Blueprint s))),
          in_templateClonedFromRef = cpc_Ref (cc_ControlPlane (bp_ClusterClass (sc_Blueprint s))),
          in_cluster = cluster,
          in_namePrefix = cl_Name cluster @ ''-'',
          in_currentObjectRef = cl_ControlPlaneRef cluster\<rparr> g = (Inr generated, g')
    \<and> (case cpt_Replicas (top_ControlPlane (bp_Topology (sc_Blueprint s))) of
          None \<Rightarrow> u_replicas cp = u_replicas generated
        | Some replicas \<Rightarrow>
            u_replicas cp = Some (scast replicas)
            \<and> sint (scast replicas :: 64 word) = sint replicas)
    \<and> u_version cp = Some (top_Version (bp_Topology (sc_Blueprint s)))"
  using computeControlPlane_success[OF assms]
  by (auto simp: sint_scast_32_64 split: option.splits)

theorem computeControlPlane_replicas_iff_specified_witness:
  "(\<exists>cp. computeControlPlane exampleEnv exampleScope
            (Some (exampleTemplate ''InfraMachineTemplate'' ''cpim'')) 0 = (Inr cp, 1)
        \<and> u_replicas cp = Some 3 \<and> u_version cp = Some ''v1.21.2'')
   \<and> (\<exists>cp. computeControlPlane exampleEnv unmanagedReplicasScope
            (Some (exampleTemplate ''InfraMachineTemplate'' ''cpim'')) 0 = (Inr cp, 1)
        \<and> u_replicas cp = Some 5 \<and> u_version cp = Some ''v1.21.2''
        \<and> \<not> exposes cp SpecReplicas)"
proof (intro conjI)
  have "\<exists>cp. computeControlPlane exampleEnv exampleScope
            (Some (exampleTemplate ''InfraMachineTemplate'' ''cpim'')) 0 = (Inr cp, 1)"
    by (simp add: model_defs example_defs eval_defs)
  then obtain cp where r: "computeControlPlane exampleEnv exampleScope
            (Some (exampleTemplate ''InfraMachineTemplate'' ''cpim'')) 0 = (Inr cp, 1)" by blast
  from computeControlPlane_replicas_iff_specified [OF r]
  have "u_replicas cp = Some 3 \<and> u_version cp = Some ''v1.21.2''"
    by (auto simp: exampleScope_def exampleBlueprint_def)
  with r show "\<exists>cp. computeControlPlane exampleEnv exampleScope
            (Some (exampleTemplate ''InfraMachineTemplate'' ''cpim'')) 0 = (Inr cp, 1)
        \<and> u_replicas cp = Some 3 \<and> u_version cp = Some ''v1.21.2''" by blast
next
  have "\<exists>cp. computeControlPlane exampleEnv unmanagedReplicasScope
            (Some (exampleTemplate ''InfraMachineTemplate'' ''cpim'')) 0 = (Inr cp, 1)
          \<and> \<not> exposes cp SpecReplicas"
    by (simp add: model_defs example_defs eval_defs)
  then obtain cp where r: "computeControlPlane exampleEnv unmanagedReplicasScope
            (Some (exampleTemplate ''InfraMachineTemplate'' ''cpim'')) 0 = (Inr cp, 1)"
    and e: "\<not> exposes cp SpecReplicas" by blast
  from computeControlPlane_replicas_iff_specified [OF r]
  have "u_replicas cp = Some 5 \<and> u_version cp = Some ''v1.21.2''"
    by (auto simp: model_defs example_defs eval_defs)
  with r e show "\<exists>cp. computeControlPlane exampleEnv unmanagedReplicasScope
            (Some (exampleTemplate ''InfraMachineTemplate'' ''cpim'')) 0 = (Inr cp, 1)
        \<and> u_replicas cp = Some 5 \<and> u_version cp = Some ''v1.21.2''
        \<and> \<not> exposes cp SpecReplicas" by blast
qed

end
